theory Spec2Isabelle
  imports Main "HOL-Library.Word"
begin

unbundle bit_operations_syntax

section \<open>JavaScript values used by the printer library\<close>

text \<open>
  Strings are lists of 8-bit characters, so the model covers JavaScript strings whose code
  units are below 256. A JavaScript \<^verbatim>\<open>Error\<close> is its message. The numbers that the library
  turns into text are the number of copies and the timestamp, which the model takes from the
  safe integers (those of absolute value below \<open>2^53\<close>, which a JavaScript number holds
  exactly and \<^verbatim>\<open>toString\<close> prints as their decimal digits), and the Windows error code, a
  \<^verbatim>\<open>DWORD\<close> of 32 bits. Numbers with a fraction and numbers beyond the safe range are outside
  the model. Output on the console (\<^verbatim>\<open>console.log\<close>, \<^verbatim>\<open>console.warn\<close>) cannot fail and is
  left out.
\<close>

datatype error = Error string

type_synonym bytes = "8 word list"

definition js_space :: "char \<Rightarrow> bool" where
  \<comment> \<open>the class \<^verbatim>\<open>\s\<close> of a regular expression, on code units below 256\<close>
  "js_space c =
     (c = CHR 0x09 \<or> c = CHR 0x0A \<or> c = CHR 0x0B \<or> c = CHR 0x0C \<or> c = CHR 0x0D
      \<or> c = CHR 0x20 \<or> c = CHR 0xA0)"

definition js_line_terminator :: "char \<Rightarrow> bool" where
  \<comment> \<open>what \<^verbatim>\<open>.\<close> does not match\<close>
  "js_line_terminator c = (c = CHR 0x0A \<or> c = CHR 0x0D)"

definition js_trim :: "string \<Rightarrow> string" where
  "js_trim s = rev (dropWhile js_space (rev (dropWhile js_space s)))"

fun starts_with :: "string \<Rightarrow> string \<Rightarrow> bool" where
  \<comment> \<open>\<open>starts_with p s\<close> is \<^verbatim>\<open>s.startsWith(p)\<close>\<close>
  "starts_with [] s = True"
| "starts_with (p # ps) [] = False"
| "starts_with (p # ps) (c # cs) = (p = c \<and> starts_with ps cs)"

fun js_includes :: "string \<Rightarrow> string \<Rightarrow> bool" where
  \<comment> \<open>\<open>js_includes s sub\<close> is \<^verbatim>\<open>s.includes(sub)\<close>\<close>
  "js_includes [] sub = (sub = [])"
| "js_includes (c # cs) sub = (starts_with sub (c # cs) \<or> js_includes cs sub)"

fun js_split :: "char \<Rightarrow> string \<Rightarrow> string list" where
  \<comment> \<open>\<^verbatim>\<open>s.split(sep)\<close> for a separator of one character\<close>
  "js_split sep [] = [[]]"
| "js_split sep (c # cs) =
     (if c = sep then [] # js_split sep cs
      else (case js_split sep cs of
              [] \<Rightarrow> [[c]]
            | w # ws \<Rightarrow> (c # w) # ws))"

fun js_join :: "string \<Rightarrow> string list \<Rightarrow> string" where
  \<comment> \<open>\<open>js_join sep xs\<close> is \<^verbatim>\<open>xs.join(sep)\<close>\<close>
  "js_join sep [] = []"
| "js_join sep [x] = x"
| "js_join sep (x # y # ys) = x @ sep @ js_join sep (y # ys)"

definition digit_char :: "nat \<Rightarrow> char" where
  "digit_char d = ''0123456789'' ! (d mod 10)"

fun decimal_nat :: "nat \<Rightarrow> string" where
  \<comment> \<open>the decimal digits of a natural number\<close>
  "decimal_nat n =
     (if n < 10 then [digit_char n] else decimal_nat (n div 10) @ [digit_char (n mod 10)])"

declare decimal_nat.simps [simp del]

definition decimal_int :: "int \<Rightarrow> string" where
  \<comment> \<open>the decimal digits of an integer, with its sign\<close>
  "decimal_int i = (if i < 0 then CHR ''-'' # decimal_nat (nat (- i)) else decimal_nat (nat i))"

typedef safe_integer = "{i :: int. - (2 ^ 53) < i \<and> i < 2 ^ 53}"
  morphisms int_of safe
  by (rule exI [of _ 0]) simp

definition number_toString :: "safe_integer \<Rightarrow> string" where
  \<comment> \<open>\<^verbatim>\<open>n.toString()\<close> and \<^verbatim>\<open>`${n}`\<close> for a number \<open>n\<close> that is a safe integer\<close>
  "number_toString n = decimal_int (int_of n)"

definition dword_toString :: "32 word \<Rightarrow> string" where
  \<comment> \<open>\<^verbatim>\<open>`${n}`\<close> for a number \<open>n\<close> that came from a \<^verbatim>\<open>DWORD\<close>\<close>
  "dword_toString n = decimal_nat (unat n)"

definition quoted :: "string \<Rightarrow> string" where
  \<comment> \<open>a path between single quotes, as the messages of Node's file system errors have it\<close>
  "quoted p = [CHR 0x27] @ p @ [CHR 0x27]"

definition truthy :: "string option \<Rightarrow> bool" where
  \<comment> \<open>a string-valued expression used as a condition: \<^verbatim>\<open>undefined\<close>, \<^verbatim>\<open>null\<close> and \<^verbatim>\<open>''\<close> are false\<close>
  "truthy v = (case v of None \<Rightarrow> False | Some s \<Rightarrow> s \<noteq> [])"

section \<open>Programs with a state that may throw\<close>

text \<open>
  A method of the library is a function from the state before the call to its outcome
  (\<open>Inl\<close> the error thrown, \<open>Inr\<close> the value returned) and the state after it.
\<close>

type_synonym ('s, 'a) prog = "'s \<Rightarrow> (error + 'a) \<times> 's"

definition ret :: "'a \<Rightarrow> ('s, 'a) prog" where
  "ret x = (\<lambda>s. (Inr x, s))"

definition throw :: "string \<Rightarrow> ('s, 'a) prog" where
  "throw msg = (\<lambda>s. (Inl (Error msg), s))"

definition seq :: "('s, 'a) prog \<Rightarrow> ('a \<Rightarrow> ('s, 'b) prog) \<Rightarrow> ('s, 'b) prog" where
  "seq m f = (\<lambda>s. case m s of (Inl e, s') \<Rightarrow> (Inl e, s') | (Inr x, s') \<Rightarrow> f x s')"

definition try_catch :: "('s, 'a) prog \<Rightarrow> (error \<Rightarrow> ('s, 'a) prog) \<Rightarrow> ('s, 'a) prog" where
  "try_catch body handler =
     (\<lambda>s. case body s of (Inl e, s') \<Rightarrow> handler e s' | (Inr x, s') \<Rightarrow> (Inr x, s'))"

definition try_finally :: "('s, 'a) prog \<Rightarrow> ('s, unit) prog \<Rightarrow> ('s, 'a) prog" where
  \<comment> \<open>the \<^verbatim>\<open>finally\<close> block always runs; an error it throws replaces the body's outcome\<close>
  "try_finally body fin =
     (\<lambda>s. case body s of
             (r, s') \<Rightarrow> (case fin s' of (Inl e, s'') \<Rightarrow> (Inl e, s'') | (Inr u, s'') \<Rightarrow> (r, s'')))"

section \<open>The Unix side: \<^verbatim>\<open>unix-printer.ts\<close>\<close>

subsection \<open>The world: file system and child processes\<close>

datatype node = File bytes | Dir

datatype exec_result =
    ExecOk string string  \<comment> \<open>the promise resolves with \<open>stdout\<close> and \<open>stderr\<close>\<close>
  | ExecFail string       \<comment> \<open>the promise rejects with an error of this message\<close>

datatype write_outcome =
    Written
  | WriteFailed string "bytes option"
      \<comment> \<open>the message of the error, and what a failed write left at the path, if anything\<close>

record unix_env =
  exec :: "string \<Rightarrow> exec_result"
  write_file :: "string \<Rightarrow> bytes \<Rightarrow> write_outcome"
  unlink_file :: "string \<Rightarrow> string option"
    \<comment> \<open>the message of the error with which the system refuses to unlink the file, if it does
        (a file of another owner in a sticky directory, a read-only file system)\<close>
  date_now :: safe_integer

text \<open>
  The state holds the two fields of a \<^verbatim>\<open>UnixPDFPrinter\<close>, the file system, and the
  commands handed to \<^verbatim>\<open>exec\<close> so far, oldest first. A command's result depends on the
  command only: the print system does not change while a method runs.
\<close>

record UnixPDFPrinter =
  printerName :: string
  initialized :: bool

record unix_state = UnixPDFPrinter +
  fs :: "string \<Rightarrow> node option"
  cmds :: "string list"

definition execAsync :: "unix_env \<Rightarrow> string \<Rightarrow> (unix_state, string \<times> string) prog" where
  "execAsync env command =
     (\<lambda>s. let s' = s\<lparr>cmds := cmds s @ [command]\<rparr>
          in case exec env command of
               ExecOk out err \<Rightarrow> (Inr (out, err), s')
             | ExecFail msg \<Rightarrow> (Inl (Error msg), s'))"

definition existsSync :: "string \<Rightarrow> (unix_state, bool) prog" where
  "existsSync p = (\<lambda>s. (Inr (fs s p \<noteq> None), s))"

definition statSync_isFile :: "string \<Rightarrow> (unix_state, bool) prog" where
  \<comment> \<open>\<^verbatim>\<open>fs.statSync(p).isFile()\<close>\<close>
  "statSync_isFile p =
     (\<lambda>s. case fs s p of
             None \<Rightarrow> (Inl (Error (''ENOENT: no such file or directory, stat '' @ quoted p)), s)
           | Some (File d) \<Rightarrow> (Inr True, s)
           | Some Dir \<Rightarrow> (Inr False, s))"

definition writeFileSync :: "unix_env \<Rightarrow> string \<Rightarrow> bytes \<Rightarrow> (unix_state, unit) prog" where
  "writeFileSync env p d =
     (\<lambda>s. case fs s p of
             Some Dir \<Rightarrow>
               (Inl (Error (''EISDIR: illegal operation on a directory, open '' @ quoted p)), s)
           | _ \<Rightarrow>
               (case write_file env p d of
                  Written \<Rightarrow> (Inr (), s\<lparr>fs := (fs s)(p \<mapsto> File d)\<rparr>)
                | WriteFailed msg None \<Rightarrow> (Inl (Error msg), s)
                | WriteFailed msg (Some part) \<Rightarrow>
                    (Inl (Error msg), s\<lparr>fs := (fs s)(p \<mapsto> File part)\<rparr>)))"

definition unlinkSync :: "unix_env \<Rightarrow> string \<Rightarrow> (unix_state, unit) prog" where
  "unlinkSync env p =
     (\<lambda>s. case fs s p of
             None \<Rightarrow> (Inl (Error (''ENOENT: no such file or directory, unlink '' @ quoted p)), s)
           | Some Dir \<Rightarrow>
               (Inl (Error (''EISDIR: illegal operation on a directory, unlink '' @ quoted p)), s)
           | Some (File d) \<Rightarrow>
               (case unlink_file env p of
                  Some msg \<Rightarrow> (Inl (Error msg), s)
                | None \<Rightarrow> (Inr (), s\<lparr>fs := (fs s)(p := None)\<rparr>)))"

subsection \<open>\<^verbatim>\<open>UnixPrinterManager\<close>\<close>

record UnixPrinterInfo =
  name :: string
  description :: "string option"
  location :: "string option"
  status :: "string option"
  isDefault :: "bool option"

definition match_default_at :: "string \<Rightarrow> string option" where
  \<comment> \<open>\<^verbatim>\<open>/default destination:\s+(\S+)/\<close> matched at the start of \<open>s\<close>: the first group\<close>
  "match_default_at s =
     (if starts_with ''default destination:'' s then
        (let r1 = drop (length ''default destination:'') s;
             r2 = dropWhile js_space r1;
             g1 = takeWhile (\<lambda>c. \<not> js_space c) r2
         in if r2 \<noteq> r1 \<and> g1 \<noteq> [] then Some g1 else None)
      else None)"

fun search_default :: "string \<Rightarrow> string option" where
  \<comment> \<open>\<^verbatim>\<open>stdout.match(...)\<close>: the leftmost position where the expression matches\<close>
  "search_default [] = None"
| "search_default (c # cs) =
     (case match_default_at (c # cs) of Some g \<Rightarrow> Some g | None \<Rightarrow> search_default cs)"

definition match_printer_at :: "string \<Rightarrow> (string \<times> string) option" where
  \<comment> \<open>\<^verbatim>\<open>/printer\s+(\S+)\s+(.*)/\<close> matched at the start of \<open>s\<close>: the two groups\<close>
  "match_printer_at s =
     (if starts_with ''printer'' s then
        (let r1 = drop (length ''printer'') s;
             r2 = dropWhile js_space r1;
             g1 = takeWhile (\<lambda>c. \<not> js_space c) r2;
             r3 = dropWhile (\<lambda>c. \<not> js_space c) r2;
             r4 = dropWhile js_space r3;
             g2 = takeWhile (\<lambda>c. \<not> js_line_terminator c) r4
         in if r2 \<noteq> r1 \<and> g1 \<noteq> [] \<and> r3 \<noteq> [] then Some (g1, g2) else None)
      else None)"

fun search_printer :: "string \<Rightarrow> (string \<times> string) option" where
  "search_printer [] = None"
| "search_printer (c # cs) =
     (case match_printer_at (c # cs) of Some g \<Rightarrow> Some g | None \<Rightarrow> search_printer cs)"

definition getDefaultPrinter :: "unix_env \<Rightarrow> (unix_state, string option) prog" where
  "getDefaultPrinter env =
     try_catch
       (seq (execAsync env ''lpstat -d 2>/dev/null'') (\<lambda>(out, err).
          ret (search_default out)))
       (\<lambda>e. ret None)"

fun printers_of_lines :: "string option \<Rightarrow> string list \<Rightarrow> UnixPrinterInfo list" where
  \<comment> \<open>the loop over the lines that start with \<^verbatim>\<open>printer\<close>\<close>
  "printers_of_lines dflt [] = []"
| "printers_of_lines dflt (l # ls) =
     (case search_printer l of
        Some (n, st) \<Rightarrow>
          \<lparr>name = n, description = None, location = None, status = Some st,
           isDefault = Some (Some n = dflt)\<rparr> # printers_of_lines dflt ls
      | None \<Rightarrow> printers_of_lines dflt ls)"

definition getAvailablePrinters :: "unix_env \<Rightarrow> (unix_state, UnixPrinterInfo list) prog" where
  "getAvailablePrinters env =
     try_catch
       (seq (execAsync env ''lpstat -p -d 2>/dev/null || lpstat -p'') (\<lambda>(out, err).
        seq (getDefaultPrinter env) (\<lambda>defaultPrinter.
          ret (printers_of_lines defaultPrinter
                 (filter (starts_with ''printer'') (js_split (CHR 0x0A) out))))))
       (\<lambda>e. ret [])"

definition printerExists :: "unix_env \<Rightarrow> string \<Rightarrow> (unix_state, bool) prog" where
  "printerExists env pn =
     seq (getAvailablePrinters env) (\<lambda>printers. ret (\<exists>p \<in> set printers. name p = pn))"

subsection \<open>\<^verbatim>\<open>UnixPDFPrinter\<close>\<close>

datatype duplex_mode = Simplex | Horizontal | Vertical

datatype page_orientation = Portrait | Landscape

record UnixPrintOptions =
  printer :: "string option"
  copies :: "safe_integer option"
  duplex :: "duplex_mode option"
  paperSize :: "string option"
  orientation :: "page_orientation option"
  color :: "bool option"
  fitToPage :: "bool option"

definition UnixPDFPrinter_new :: "string option \<Rightarrow> error + UnixPDFPrinter" where
  \<comment> \<open>the constructor\<close>
  "UnixPDFPrinter_new pn =
     (let this = \<lparr>printerName = (if truthy pn then the pn else []), initialized = False\<rparr>
      in if truthy pn \<and> length (js_trim (the pn)) = 0
         then Inl (Error ''Printer name cannot be empty'')
         else Inr this)"

definition world_of :: "UnixPDFPrinter \<Rightarrow> (string \<Rightarrow> node option) \<Rightarrow> unix_state" where
  \<comment> \<open>the state right after the printer \<open>this\<close> was created: no command has been executed\<close>
  "world_of this files =
     \<lparr>printerName = printerName this, initialized = initialized this, fs = files, cmds = []\<rparr>"

definition set_printerName :: "string \<Rightarrow> (unix_state, unit) prog" where
  "set_printerName n = (\<lambda>s. (Inr (), s\<lparr>printerName := n\<rparr>))"

definition set_initialized :: "bool \<Rightarrow> (unix_state, unit) prog" where
  "set_initialized b = (\<lambda>s. (Inr (), s\<lparr>initialized := b\<rparr>))"

definition initialize :: "unix_env \<Rightarrow> (unix_state, unit) prog" where
  "initialize env =
     (\<lambda>s. if initialized s then (Inr (), s)
          else
            seq (if \<not> truthy (Some (printerName s)) then
                   seq (getDefaultPrinter env) (\<lambda>defaultPrinter.
                     if \<not> truthy defaultPrinter then
                       seq (getAvailablePrinters env) (\<lambda>printers.
                         if length printers = 0 then throw ''No printers found on this system''
                         else set_printerName (name (hd printers)))
                     else set_printerName (the defaultPrinter))
                 else
                   seq (printerExists env (printerName s)) (\<lambda>exists.
                     if \<not> exists then throw (''Printer not found: '' @ printerName s)
                     else ret ()))
              (\<lambda>u. set_initialized True) s)"

definition lp_args :: "string \<Rightarrow> UnixPrintOptions \<Rightarrow> string \<Rightarrow> string list" where
  \<comment> \<open>the array \<^verbatim>\<open>args\<close> of \<^verbatim>\<open>print\<close>, one binding for each push\<close>
  "lp_args pn options pdfPath =
     (let args = [];
          args = args @ [''-d'', pn];
          args = (case copies options of
                    Some c \<Rightarrow>
                      if int_of c \<noteq> 0 \<and> int_of c > 1 then args @ [''-n'', number_toString c]
                      else args
                  | None \<Rightarrow> args);
          args = (case duplex options of
                    Some Simplex \<Rightarrow> args @ [''-o'', ''sides=one-sided'']
                  | Some Horizontal \<Rightarrow> args @ [''-o'', ''sides=two-sided-short-edge'']
                  | Some Vertical \<Rightarrow> args @ [''-o'', ''sides=two-sided-long-edge'']
                  | None \<Rightarrow> args);
          args = (if truthy (paperSize options)
                  then args @ [''-o'', ''media='' @ the (paperSize options)] else args);
          args = (case orientation options of
                    Some ori \<Rightarrow>
                      args @ [''-o'', ''orientation-requested=''
                                        @ (if ori = Landscape then ''4'' else ''3'')]
                  | None \<Rightarrow> args);
          args = (case color options of
                    Some col \<Rightarrow>
                      args @ [''-o'', ''print-color-mode=''
                                        @ (if col then ''color'' else ''monochrome'')]
                  | None \<Rightarrow> args);
          args = (if fitToPage options = Some True then args @ [''-o'', ''fit-to-page''] else args);
          args = args @ [pdfPath]
      in args)"

definition lp_printer :: "string \<Rightarrow> UnixPrintOptions \<Rightarrow> string" where
  \<comment> \<open>\<^verbatim>\<open>options.printer || this.printerName\<close>\<close>
  "lp_printer this_name options =
     (if truthy (printer options) then the (printer options) else this_name)"

definition lp_command :: "string \<Rightarrow> UnixPrintOptions \<Rightarrow> string \<Rightarrow> string" where
  "lp_command this_name options pdfPath =
     ''lp '' @ js_join '' '' (lp_args (lp_printer this_name options) options pdfPath)"

definition print :: "unix_env \<Rightarrow> string \<Rightarrow> UnixPrintOptions \<Rightarrow> (unix_state, unit) prog" where
  "print env pdfPath options =
     seq (existsSync pdfPath) (\<lambda>found.
       if \<not> found then throw (''PDF file not found: '' @ pdfPath)
       else
         seq (statSync_isFile pdfPath) (\<lambda>is_file.
           if \<not> is_file then throw (''Path is not a file: '' @ pdfPath)
           else
             seq (initialize env) (\<lambda>u. (\<lambda>s.
               try_catch
                 (seq (execAsync env (lp_command (printerName s) options pdfPath)) (\<lambda>(out, err).
                    if err \<noteq> [] \<and> \<not> js_includes err ''request id''
                    then throw (''Print command failed: '' @ err)
                    else ret ()))
                 (\<lambda>e. case e of Error msg \<Rightarrow> throw (''Failed to print: '' @ msg)) s))))"

fun normalize_segments :: "string list \<Rightarrow> string list \<Rightarrow> string list" where
  \<comment> \<open>the segments kept so far, and the segments still to read\<close>
  "normalize_segments res [] = res"
| "normalize_segments res (seg # segs) =
     (if seg = [] \<or> seg = ''.'' then normalize_segments res segs
      else if seg = ''..'' then normalize_segments (butlast res) segs
      else normalize_segments (res @ [seg]) segs)"

definition path_join :: "string \<Rightarrow> string \<Rightarrow> string" where
  \<comment> \<open>\<^verbatim>\<open>path.join(a, b)\<close> of Node's POSIX \<^verbatim>\<open>path\<close>, for an absolute \<open>a\<close> and a non-empty \<open>b\<close>:
      the two are joined by a slash and the result is normalised\<close>
  "path_join a b =
     (let joined = a @ ''/'' @ b;
          body = js_join ''/'' (normalize_segments [] (js_split CHR ''/'' joined))
      in if body = [] then ''/''
         else ''/'' @ body @ (if last joined = CHR ''/'' then ''/'' else []))"

definition printRaw ::
  "unix_env \<Rightarrow> bytes \<Rightarrow> string option \<Rightarrow> UnixPrintOptions \<Rightarrow> (unix_state, unit) prog" where
  "printRaw env data documentName options =
     (let tempDir = ''/tmp'';
          tempFile = path_join tempDir
                       ((case documentName of None \<Rightarrow> ''Document'' | Some n \<Rightarrow> n)
                        @ ''-'' @ number_toString (date_now env) @ ''.pdf'')
      in try_finally
           (seq (writeFileSync env tempFile data) (\<lambda>u. print env tempFile options))
           (seq (existsSync tempFile) (\<lambda>found.
              if found then unlinkSync env tempFile else ret ())))"

section \<open>The Windows side: \<^verbatim>\<open>pdf-printer.ts\<close>\<close>

subsection \<open>What the module imports\<close>

text \<open>
  The constants of \<^verbatim>\<open>windows-print-api.ts\<close> and the static methods of the Windows
  \<^verbatim>\<open>PrinterManager\<close> are not among the sources. They are parameters of the model: a record
  of constants, a record of the manager's methods, and a record of the spooler functions.
  A native call either returns or throws.
\<close>

record win_consts =
  DM_ORIENTATION :: "32 word"
  DM_PAPERSIZE :: "32 word"
  DM_COPIES :: "32 word"
  DM_DEFAULTSOURCE :: "32 word"
  DM_COLOR :: "32 word"
  DM_DUPLEX :: "32 word"
  DUPLEX_SIMPLEX :: int
  DUPLEX_HORIZONTAL :: int
  DUPLEX_VERTICAL :: int
  PORTRAIT :: int
  LANDSCAPE :: int
  MONOCHROME :: int
  COLOR_MODE :: int

datatype 'a resp = Returns 'a | Throws string

record WindowsPrinterInfo =
  wpi_name :: string

record 'c WindowsPrinterManager =
  mgr_printerExists :: "string \<Rightarrow> bool"
  mgr_getDefaultPrinter :: "string option"
  mgr_getAvailablePrinters :: "WindowsPrinterInfo list"
  mgr_getPrinterCapabilities :: "string \<Rightarrow> 'c option"
  mgr_openPrinter :: "string \<Rightarrow> nat resp"
  mgr_closePrinter :: "nat \<Rightarrow> unit resp"

record DOC_INFO_1 =
  pDocName :: string
  pOutputFile :: "string option"
  pDatatype :: string

record winspool =
  StartDocPrinterW :: "nat \<Rightarrow> nat \<Rightarrow> DOC_INFO_1 \<Rightarrow> int option resp"
  EndDocPrinter :: "nat \<Rightarrow> bool resp"
  StartPagePrinter :: "nat \<Rightarrow> bool resp"
  EndPagePrinter :: "nat \<Rightarrow> bool resp"
  WritePrinter :: "nat \<Rightarrow> bytes \<Rightarrow> nat \<Rightarrow> (bool \<times> nat) resp"
  GetLastError :: "32 word resp"
  w_fs :: "string \<Rightarrow> node option"
  w_basename :: "string \<Rightarrow> string"

text \<open>The state of a Windows method is the list of native calls made so far, each with its result.\<close>

datatype event =
    OpenPrinter string "nat resp"
  | ClosePrinter nat "unit resp"
  | StartDoc nat DOC_INFO_1 "int option resp"
  | EndDoc nat "bool resp"
  | StartPage nat "bool resp"
  | EndPage nat "bool resp"
  | Write nat bytes "(bool \<times> nat) resp"
  | LastError "32 word resp"

definition call :: "('a resp \<Rightarrow> event) \<Rightarrow> 'a resp \<Rightarrow> (event list, 'a) prog" where
  "call ev r =
     (\<lambda>tr. case r of
              Returns x \<Rightarrow> (Inr x, tr @ [ev r])
            | Throws msg \<Rightarrow> (Inl (Error msg), tr @ [ev r]))"

subsection \<open>\<^verbatim>\<open>PDFPrinter\<close>\<close>

record PrintOptions =
  w_printer :: "string option"
  w_copies :: "int option"
  w_duplex :: "duplex_mode option"
  w_paperSize :: "int option"
  w_paperSource :: "int option"
  w_orientation :: "page_orientation option"
  w_color :: "bool option"
  w_quality :: "int option"
  w_collate :: "bool option"

record WindowsPDFPrinter =
  w_printerName :: string

record DEVMODE =
  dmFields :: "32 word"
  dmCopies :: "int option"
  dmDuplex :: "int option"
  dmPaperSize :: "int option"
  dmDefaultSource :: "int option"
  dmOrientation :: "int option"
  dmColor :: "int option"

definition WindowsPDFPrinter_new ::
  "'c WindowsPrinterManager \<Rightarrow> string option \<Rightarrow> error + WindowsPDFPrinter" where
  \<comment> \<open>the constructor\<close>
  "WindowsPDFPrinter_new mgr pn =
     (if truthy pn then
        (if \<not> mgr_printerExists mgr (the pn) then Inl (Error (''Printer not found: '' @ the pn))
         else Inr \<lparr>w_printerName = the pn\<rparr>)
      else
        (let defaultPrinter = mgr_getDefaultPrinter mgr
         in if \<not> truthy defaultPrinter then
              (let printers = mgr_getAvailablePrinters mgr
               in if length printers = 0 then Inl (Error ''No printers found on this system'')
                  else Inr \<lparr>w_printerName = wpi_name (hd printers)\<rparr>)
            else Inr \<lparr>w_printerName = the defaultPrinter\<rparr>))"

text \<open>
  \<^verbatim>\<open>createDevMode\<close> is a sequence of blocks, each of which sets one field of the structure
  when its option is present. Each block is a function on the structure.
\<close>

definition set_copies :: "win_consts \<Rightarrow> PrintOptions \<Rightarrow> DEVMODE \<Rightarrow> DEVMODE" where
  "set_copies K options devMode =
     (case w_copies options of
        Some c \<Rightarrow>
          if c \<noteq> 0 \<and> c > 0
          then devMode\<lparr>dmCopies := Some c, dmFields := dmFields devMode OR DM_COPIES K\<rparr>
          else devMode
      | None \<Rightarrow> devMode)"

definition set_duplex :: "win_consts \<Rightarrow> PrintOptions \<Rightarrow> DEVMODE \<Rightarrow> DEVMODE" where
  "set_duplex K options devMode =
     (case w_duplex options of
        Some d \<Rightarrow>
          (let devMode =
                 (case d of
                    Simplex \<Rightarrow> devMode\<lparr>dmDuplex := Some (DUPLEX_SIMPLEX K)\<rparr>
                  | Horizontal \<Rightarrow> devMode\<lparr>dmDuplex := Some (DUPLEX_HORIZONTAL K)\<rparr>
                  | Vertical \<Rightarrow> devMode\<lparr>dmDuplex := Some (DUPLEX_VERTICAL K)\<rparr>)
           in devMode\<lparr>dmFields := dmFields devMode OR DM_DUPLEX K\<rparr>)
      | None \<Rightarrow> devMode)"

definition set_paper_size :: "win_consts \<Rightarrow> PrintOptions \<Rightarrow> DEVMODE \<Rightarrow> DEVMODE" where
  "set_paper_size K options devMode =
     (case w_paperSize options of
        Some ps \<Rightarrow>
          if ps \<noteq> 0
          then devMode\<lparr>dmPaperSize := Some ps, dmFields := dmFields devMode OR DM_PAPERSIZE K\<rparr>
          else devMode
      | None \<Rightarrow> devMode)"

definition set_paper_source :: "win_consts \<Rightarrow> PrintOptions \<Rightarrow> DEVMODE \<Rightarrow> DEVMODE" where
  "set_paper_source K options devMode =
     (case w_paperSource options of
        Some src \<Rightarrow>
          if src \<noteq> 0
          then devMode\<lparr>dmDefaultSource := Some src,
                       dmFields := dmFields devMode OR DM_DEFAULTSOURCE K\<rparr>
          else devMode
      | None \<Rightarrow> devMode)"

definition set_orientation :: "win_consts \<Rightarrow> PrintOptions \<Rightarrow> DEVMODE \<Rightarrow> DEVMODE" where
  "set_orientation K options devMode =
     (case w_orientation options of
        Some ori \<Rightarrow>
          devMode\<lparr>dmOrientation := Some (if ori = Portrait then PORTRAIT K else LANDSCAPE K),
                   dmFields := dmFields devMode OR DM_ORIENTATION K\<rparr>
      | None \<Rightarrow> devMode)"

definition set_color :: "win_consts \<Rightarrow> PrintOptions \<Rightarrow> DEVMODE \<Rightarrow> DEVMODE" where
  "set_color K options devMode =
     (case w_color options of
        Some col \<Rightarrow>
          devMode\<lparr>dmColor := Some (if col then COLOR_MODE K else MONOCHROME K),
                   dmFields := dmFields devMode OR DM_COLOR K\<rparr>
      | None \<Rightarrow> devMode)"

definition createDevMode :: "win_consts \<Rightarrow> PrintOptions \<Rightarrow> DEVMODE" where
  "createDevMode K options =
     (let devMode = \<lparr>dmFields = 0, dmCopies = None, dmDuplex = None, dmPaperSize = None,
                     dmDefaultSource = None, dmOrientation = None, dmColor = None\<rparr>;
          devMode = set_copies K options devMode;
          devMode = set_duplex K options devMode;
          devMode = set_paper_size K options devMode;
          devMode = set_paper_source K options devMode;
          devMode = set_orientation K options devMode;
          devMode = set_color K options devMode
      in devMode)"

definition getLastError :: "winspool \<Rightarrow> (event list, 32 word) prog" where
  "getLastError api = try_catch (call LastError (GetLastError api)) (\<lambda>e. ret 0)"

definition w_readFileSync :: "winspool \<Rightarrow> string \<Rightarrow> (event list, bytes) prog" where
  "w_readFileSync api p =
     (case w_fs api p of
        Some (File d) \<Rightarrow> ret d
      | Some Dir \<Rightarrow> throw ''EISDIR: illegal operation on a directory, read''
      | None \<Rightarrow> throw (''ENOENT: no such file or directory, open '' @ quoted p))"

definition w_isFile :: "winspool \<Rightarrow> string \<Rightarrow> bool" where
  \<comment> \<open>\<^verbatim>\<open>fs.statSync(p).isFile()\<close> for a path that exists\<close>
  "w_isFile api p = (case w_fs api p of Some (File d) \<Rightarrow> True | _ \<Rightarrow> False)"

definition send_pages :: "winspool \<Rightarrow> nat \<Rightarrow> bytes \<Rightarrow> (event list, unit) prog" where
  \<comment> \<open>the two inner \<^verbatim>\<open>try\<close> blocks, which \<^verbatim>\<open>print\<close> and \<^verbatim>\<open>printRaw\<close> have word for word\<close>
  "send_pages api hPrinter buf =
     try_finally
       (seq (call (StartPage hPrinter) (StartPagePrinter api hPrinter)) (\<lambda>started.
          if \<not> started then throw ''Failed to start page''
          else
            try_finally
              (seq (call (Write hPrinter buf) (WritePrinter api hPrinter buf (length buf)))
                 (\<lambda>(written, bytesWritten).
                    if \<not> written then throw ''Failed to write data to printer'' else ret ()))
              (seq (call (EndPage hPrinter) (EndPagePrinter api hPrinter)) (\<lambda>b. ret ()))))
       (seq (call (EndDoc hPrinter) (EndDocPrinter api hPrinter)) (\<lambda>b. ret ()))"

definition win_print ::
  "win_consts \<Rightarrow> 'c WindowsPrinterManager \<Rightarrow> winspool \<Rightarrow> WindowsPDFPrinter \<Rightarrow> string
     \<Rightarrow> PrintOptions \<Rightarrow> (event list, unit) prog" where
  "win_print K mgr api this pdfPath options =
     (if w_fs api pdfPath = None then throw (''PDF file not found: '' @ pdfPath)
      else if \<not> w_isFile api pdfPath then throw (''Path is not a file: '' @ pdfPath)
      else
        (let pn = (if truthy (w_printer options) then the (w_printer options)
                   else w_printerName this)
         in seq (call (OpenPrinter pn) (mgr_openPrinter mgr pn)) (\<lambda>hPrinter.
              try_finally
                (let devMode = createDevMode K options
                 in seq (w_readFileSync api pdfPath) (\<lambda>pdfData.
                      let docName = w_basename api pdfPath;
                          docInfo = \<lparr>pDocName = docName, pOutputFile = None, pDatatype = ''RAW''\<rparr>
                      in seq (call (StartDoc hPrinter docInfo) (StartDocPrinterW api hPrinter 1 docInfo))
                           (\<lambda>jobId.
                              if jobId = None \<or> jobId = Some 0 then
                                seq (getLastError api) (\<lambda>lastError.
                                  throw (''Failed to start print job. Windows error code: ''
                                         @ dword_toString lastError))
                              else send_pages api hPrinter pdfData)))
                (call (ClosePrinter hPrinter) (mgr_closePrinter mgr hPrinter)))))"

definition win_printRaw ::
  "'c WindowsPrinterManager \<Rightarrow> winspool \<Rightarrow> WindowsPDFPrinter \<Rightarrow> bytes \<Rightarrow> string option
     \<Rightarrow> PrintOptions \<Rightarrow> (event list, unit) prog" where
  "win_printRaw mgr api this buf documentName options =
     (let pn = (if truthy (w_printer options) then the (w_printer options)
                else w_printerName this)
      in seq (call (OpenPrinter pn) (mgr_openPrinter mgr pn)) (\<lambda>hPrinter.
           try_finally
             (let docInfo = \<lparr>pDocName = (case documentName of None \<Rightarrow> ''Document'' | Some n \<Rightarrow> n),
                             pOutputFile = None, pDatatype = ''RAW''\<rparr>
              in seq (call (StartDoc hPrinter docInfo) (StartDocPrinterW api hPrinter 1 docInfo))
                   (\<lambda>jobId.
                      if jobId = Some 0 \<or> jobId = None then
                        seq (getLastError api) (\<lambda>lastError.
                          throw (''Failed to start print job. Windows error code: ''
                                 @ dword_toString lastError))
                      else send_pages api hPrinter buf))
             (call (ClosePrinter hPrinter) (mgr_closePrinter mgr hPrinter))))"

section \<open>The entry point: \<^verbatim>\<open>index.ts\<close>\<close>

definition isWindows :: "string \<Rightarrow> bool" where
  \<comment> \<open>the argument is what \<^verbatim>\<open>os.platform()\<close> returns\<close>
  "isWindows os_platform = (os_platform = ''win32'')"

definition getPlatform :: "string \<Rightarrow> string" where
  "getPlatform os_platform = (if isWindows os_platform then ''windows'' else ''unix'')"

datatype printer_impl = WindowsImpl WindowsPDFPrinter | UnixImpl UnixPDFPrinter

record PDFPrinter =
  impl :: printer_impl
  isUnix :: bool

datatype PrinterInfo = WindowsInfo WindowsPrinterInfo | UnixInfo UnixPrinterInfo

definition PDFPrinter_new ::
  "string \<Rightarrow> 'c WindowsPrinterManager \<Rightarrow> string option \<Rightarrow> error + PDFPrinter" where
  \<comment> \<open>the constructor of the cross-platform class\<close>
  "PDFPrinter_new os_platform mgr pn =
     (if isWindows os_platform then
        (case WindowsPDFPrinter_new mgr pn of
           Inl e \<Rightarrow> Inl e
         | Inr p \<Rightarrow> Inr \<lparr>impl = WindowsImpl p, isUnix = \<not> isWindows os_platform\<rparr>)
      else
        (case UnixPDFPrinter_new pn of
           Inl e \<Rightarrow> Inl e
         | Inr p \<Rightarrow> Inr \<lparr>impl = UnixImpl p, isUnix = \<not> isWindows os_platform\<rparr>))"

definition PrinterManager_getAvailablePrinters ::
  "string \<Rightarrow> 'c WindowsPrinterManager \<Rightarrow> unix_env \<Rightarrow> (unix_state, PrinterInfo list) prog" where
  "PrinterManager_getAvailablePrinters os_platform mgr env =
     (if isWindows os_platform then ret (map WindowsInfo (mgr_getAvailablePrinters mgr))
      else seq (getAvailablePrinters env) (\<lambda>ps. ret (map UnixInfo ps)))"

definition PrinterManager_getDefaultPrinter ::
  "string \<Rightarrow> 'c WindowsPrinterManager \<Rightarrow> unix_env \<Rightarrow> (unix_state, string option) prog" where
  "PrinterManager_getDefaultPrinter os_platform mgr env =
     (if isWindows os_platform then ret (mgr_getDefaultPrinter mgr)
      else getDefaultPrinter env)"

definition PrinterManager_printerExists ::
  "string \<Rightarrow> 'c WindowsPrinterManager \<Rightarrow> unix_env \<Rightarrow> string \<Rightarrow> (unix_state, bool) prog" where
  "PrinterManager_printerExists os_platform mgr env pn =
     (if isWindows os_platform then ret (mgr_printerExists mgr pn)
      else printerExists env pn)"

definition PrinterManager_getPrinterCapabilities ::
  "string \<Rightarrow> 'c WindowsPrinterManager \<Rightarrow> string \<Rightarrow> 'c option" where
  "PrinterManager_getPrinterCapabilities os_platform mgr pn =
     (if isWindows os_platform then mgr_getPrinterCapabilities mgr pn else None)"

section \<open>The vocabulary of the specification\<close>












text \<open>
  Pairing of native calls. \<open>paired opens closes tr\<close> says that every event of the trace
  \<open>tr\<close> that opens a resource with handle \<open>h\<close> is followed, later in the trace, by an event
  that closes \<open>h\<close>. A printer is opened by an \<^verbatim>\<open>openPrinter\<close> that returns, a document by a
  \<^verbatim>\<open>StartDocPrinterW\<close> that returns a job id other than zero, a page by a \<^verbatim>\<open>StartPagePrinter\<close>
  that returns true; they are closed by the calls of \<^verbatim>\<open>closePrinter\<close>, \<^verbatim>\<open>EndDocPrinter\<close> and
  \<^verbatim>\<open>EndPagePrinter\<close> on the same handle.
\<close>

fun paired :: "(event \<Rightarrow> nat option) \<Rightarrow> (nat \<Rightarrow> event \<Rightarrow> bool) \<Rightarrow> event list \<Rightarrow> bool" where
  "paired opens closes [] = True"
| "paired opens closes (e # es) =
     ((case opens e of None \<Rightarrow> True | Some h \<Rightarrow> \<exists>x \<in> set es. closes h x)
      \<and> paired opens closes es)"

definition opened_printer :: "event \<Rightarrow> nat option" where
  "opened_printer e = (case e of OpenPrinter n (Returns h) \<Rightarrow> Some h | _ \<Rightarrow> None)"

definition closes_printer :: "nat \<Rightarrow> event \<Rightarrow> bool" where
  "closes_printer h e = (case e of ClosePrinter h' r \<Rightarrow> h' = h | _ \<Rightarrow> False)"

definition started_doc :: "event \<Rightarrow> nat option" where
  "started_doc e =
     (case e of StartDoc h doc (Returns (Some job)) \<Rightarrow> if job \<noteq> 0 then Some h else None
      | _ \<Rightarrow> None)"

definition ends_doc :: "nat \<Rightarrow> event \<Rightarrow> bool" where
  "ends_doc h e = (case e of EndDoc h' r \<Rightarrow> h' = h | _ \<Rightarrow> False)"

definition started_page :: "event \<Rightarrow> nat option" where
  "started_page e = (case e of StartPage h (Returns True) \<Rightarrow> Some h | _ \<Rightarrow> None)"

definition ends_page :: "nat \<Rightarrow> event \<Rightarrow> bool" where
  "ends_page h e = (case e of EndPage h' r \<Rightarrow> h' = h | _ \<Rightarrow> False)"

definition all_paired :: "event list \<Rightarrow> bool" where
  "all_paired tr =
     (paired opened_printer closes_printer tr \<and> paired started_doc ends_doc tr
      \<and> paired started_page ends_page tr)"

text \<open>The calls of a print job, written out: those of the page, of the document, of the job.\<close>

definition page_events :: "winspool \<Rightarrow> nat \<Rightarrow> bytes \<Rightarrow> event list" where
  "page_events api h buf =
     StartPage h (StartPagePrinter api h)
     # (if StartPagePrinter api h = Returns True
        then [Write h buf (WritePrinter api h buf (length buf)), EndPage h (EndPagePrinter api h)]
        else [])
     @ [EndDoc h (EndDocPrinter api h)]"

definition doc_events :: "winspool \<Rightarrow> nat \<Rightarrow> DOC_INFO_1 \<Rightarrow> bytes \<Rightarrow> event list" where
  "doc_events api h doc buf =
     StartDoc h doc (StartDocPrinterW api h 1 doc)
     # (case StartDocPrinterW api h 1 doc of
          Throws msg \<Rightarrow> []
        | Returns None \<Rightarrow> [LastError (GetLastError api)]
        | Returns (Some job) \<Rightarrow>
            if job = 0 then [LastError (GetLastError api)] else page_events api h buf)"

definition job_events ::
  "'c WindowsPrinterManager \<Rightarrow> winspool \<Rightarrow> string \<Rightarrow> DOC_INFO_1 \<Rightarrow> bytes \<Rightarrow> event list" where
  "job_events mgr api pn doc buf =
     OpenPrinter pn (mgr_openPrinter mgr pn)
     # (case mgr_openPrinter mgr pn of
          Throws msg \<Rightarrow> []
        | Returns h \<Rightarrow> doc_events api h doc buf @ [ClosePrinter h (mgr_closePrinter mgr h)])"

text \<open>The path that \<^verbatim>\<open>printRaw\<close> computes for its temporary file.\<close>

definition temp_file :: "unix_env \<Rightarrow> string option \<Rightarrow> string" where
  "temp_file env documentName =
     path_join ''/tmp''
       ((case documentName of None \<Rightarrow> ''Document'' | Some n \<Rightarrow> n)
        @ ''-'' @ number_toString (date_now env) @ ''.pdf'')"

section \<open>Concrete worlds\<close>

text \<open>
  A Unix machine with one printer \<^verbatim>\<open>HP\<close>, which is the default, and a Windows machine with
  the same printer. The Windows constants carry the values of the vendor's headers.
\<close>

definition demo_fs :: "string \<Rightarrow> node option" where
  "demo_fs p =
     (if p = ''/tmp'' then Some Dir
      else if p = ''/tmp/report.pdf'' then Some (File [0x25, 0x50, 0x44, 0x46])
      else None)"

definition demo_exec :: "string \<Rightarrow> exec_result" where
  "demo_exec command =
     (if command = ''lpstat -p -d 2>/dev/null || lpstat -p''
      then ExecOk (''printer HP is idle.  enabled since Mon 01 Jan 2024'' @ [CHR 0x0A]
                   @ ''system default destination: HP'' @ [CHR 0x0A]) []
      else if command = ''lpstat -d 2>/dev/null''
      then ExecOk (''system default destination: HP'' @ [CHR 0x0A]) []
      else if starts_with ''lp '' command
      then ExecOk (''request id is HP-7 (1 file(s))'' @ [CHR 0x0A]) []
      else ExecFail (''Command failed: '' @ command))"

definition demo_env :: unix_env where
  "demo_env = \<lparr>exec = demo_exec, write_file = (\<lambda>p d. Written), unlink_file = (\<lambda>p. None),
      date_now = safe 1700000000000\<rparr>"

definition demo_state :: unix_state where
  "demo_state = \<lparr>printerName = ''HP'', initialized = False, fs = demo_fs, cmds = []\<rparr>"

definition no_options :: UnixPrintOptions where
  "no_options = \<lparr>printer = None, copies = None, duplex = None, paperSize = None,
                 orientation = None, color = None, fitToPage = None\<rparr>"

definition demo_consts :: win_consts where
  "demo_consts =
     \<lparr>DM_ORIENTATION = 0x1, DM_PAPERSIZE = 0x2, DM_COPIES = 0x100, DM_DEFAULTSOURCE = 0x200,
      DM_COLOR = 0x800, DM_DUPLEX = 0x1000,
      DUPLEX_SIMPLEX = 1, DUPLEX_HORIZONTAL = 3, DUPLEX_VERTICAL = 2,
      PORTRAIT = 1, LANDSCAPE = 2, MONOCHROME = 1, COLOR_MODE = 2\<rparr>"

definition demo_mgr :: "unit WindowsPrinterManager" where
  "demo_mgr =
     \<lparr>mgr_printerExists = (\<lambda>n. n = ''HP''),
      mgr_getDefaultPrinter = Some ''HP'',
      mgr_getAvailablePrinters = [\<lparr>wpi_name = ''HP''\<rparr>],
      mgr_getPrinterCapabilities = (\<lambda>n. if n = ''HP'' then Some () else None),
      mgr_openPrinter = (\<lambda>n. if n = ''HP'' then Returns 42 else Throws ''Failed to open printer''),
      mgr_closePrinter = (\<lambda>h. Returns ())\<rparr>"

definition demo_api :: winspool where
  "demo_api =
     \<lparr>StartDocPrinterW = (\<lambda>h level doc. Returns (Some 7)),
      EndDocPrinter = (\<lambda>h. Returns True),
      StartPagePrinter = (\<lambda>h. Returns True),
      EndPagePrinter = (\<lambda>h. Returns True),
      WritePrinter = (\<lambda>h buf n. Returns (True, n)),
      GetLastError = Returns 0,
      w_fs = demo_fs,
      w_basename = (\<lambda>p. if p = ''/tmp/report.pdf'' then ''report.pdf'' else p)\<rparr>"

definition no_win_options :: PrintOptions where
  "no_win_options = \<lparr>w_printer = None, w_copies = None, w_duplex = None, w_paperSize = None,
                     w_paperSource = None, w_orientation = None, w_color = None,
                     w_quality = None, w_collate = None\<rparr>"

text \<open>A machine without CUPS: every command fails.\<close>

definition no_cups_env :: unix_env where
  "no_cups_env =
     \<lparr>exec = (\<lambda>command. ExecFail (''Command failed: '' @ command)),
      write_file = (\<lambda>p d. Written), unlink_file = (\<lambda>p. None),
      date_now = safe 1700000000000\<rparr>"

text \<open>Spoolers that refuse to start a page, and to take the data.\<close>

definition page_fails_api :: winspool where
  "page_fails_api = demo_api\<lparr>StartPagePrinter := (\<lambda>h. Returns False), GetLastError := Returns 5\<rparr>"

definition write_fails_api :: winspool where
  "write_fails_api = demo_api\<lparr>WritePrinter := (\<lambda>h buf n. Returns (False, 0)), GetLastError := Returns 5\<rparr>"

text \<open>
  The Unix machine again, with the answer of \<^verbatim>\<open>lp\<close> as a parameter; a request with every
  option; a printer object for a name that no printer has.
\<close>

definition lp_env :: "exec_result \<Rightarrow> unix_env" where
  "lp_env r = demo_env\<lparr>exec := (\<lambda>command. if starts_with ''lp '' command then r else demo_exec command)\<rparr>"


definition ghost :: UnixPDFPrinter where
  "ghost = \<lparr>printerName = ''Ghost'', initialized = False\<rparr>"

text \<open>Machines on which CUPS, and the Windows spooler, know no printer at all.\<close>

definition bare_exec :: "string \<Rightarrow> exec_result" where
  "bare_exec command =
     (if command = ''lpstat -p -d 2>/dev/null || lpstat -p''
      then ExecOk (''no system default destination'' @ [CHR 0x0A]) []
      else if command = ''lpstat -d 2>/dev/null''
      then ExecOk (''no system default destination'' @ [CHR 0x0A]) []
      else ExecFail (''Command failed: '' @ command))"

definition bare_env :: unix_env where
  "bare_env = \<lparr>exec = bare_exec, write_file = (\<lambda>p d. Written), unlink_file = (\<lambda>p. None),
      date_now = safe 1700000000000\<rparr>"

definition bare_mgr :: "unit WindowsPrinterManager" where
  "bare_mgr =
     \<lparr>mgr_printerExists = (\<lambda>n. False),
      mgr_getDefaultPrinter = None,
      mgr_getAvailablePrinters = [],
      mgr_getPrinterCapabilities = (\<lambda>n. None),
      mgr_openPrinter = (\<lambda>n. Throws ''Failed to open printer''),
      mgr_closePrinter = (\<lambda>h. Returns ())\<rparr>"

text \<open>The Unix machine with a full disk: a write fails and leaves an empty file.\<close>

definition disk_full_env :: unix_env where
  "disk_full_env =
     demo_env\<lparr>write_file := (\<lambda>p d. WriteFailed ''ENOSPC: no space left on device, write'' (Some []))\<rparr>"


definition sticky_env :: unix_env where
  "sticky_env =
     demo_env\<lparr>unlink_file := (\<lambda>p. Some (''EPERM: operation not permitted, unlink '' @ quoted p))\<rparr>"

definition sticky_state :: unix_state where
  "sticky_state =
     demo_state\<lparr>fs := (\<lambda>p. if p = ''/tmp/Document-1700000000000.pdf''
                             then Some (File [0x00]) else demo_fs p)\<rparr>"

section \<open>Theorems\<close>

lemmas prog_defs = ret_def throw_def seq_def try_catch_def try_finally_def

lemmas unix_defs = print_def initialize_def printerExists_def getAvailablePrinters_def
  getDefaultPrinter_def execAsync_def existsSync_def statSync_isFile_def set_printerName_def
  set_initialized_def

lemmas lpstat_eval = match_default_at_def match_printer_at_def js_space_def js_line_terminator_def
  Let_def truthy_def

lemmas win_defs = win_print_def win_printRaw_def send_pages_def call_def getLastError_def
  w_readFileSync_def w_isFile_def

subsection \<open>Decimal digits\<close>

lemma decimal_nat_digits: "set (decimal_nat n) \<subseteq> set ''0123456789''"
proof (induction n rule: decimal_nat.induct)
  case (1 n)
  have d: "\<And>k. digit_char k \<in> set ''0123456789''"
    unfolding digit_char_def by (rule nth_mem) simp
  show ?case
  proof (cases "n < 10")
    case True
    then show ?thesis using d by (subst decimal_nat.simps) simp
  next
    case False
    then show ?thesis using d 1 by (subst decimal_nat.simps) simp
  qed
qed




subsection \<open>The argument list of \<^verbatim>\<open>lp\<close>, block by block\<close>








subsection \<open>The fields of the \<^verbatim>\<open>DEVMODE\<close> structure, block by block\<close>









subsection \<open>Duplex\<close>



subsection \<open>The file is checked before anything is printed\<close>

text \<open>
  Claim C4. On both platforms, \<^verbatim>\<open>print\<close> of a path that does not exist throws
  \<^verbatim>\<open>PDF file not found: <path>\<close>, and \<^verbatim>\<open>print\<close> of a path that exists and is not a regular
  file throws \<^verbatim>\<open>Path is not a file: <path>\<close>. In both cases the state after the call is the
  state before it: on Unix no command was executed, on Windows no native call was made, so
  no printer handle was opened and no job was submitted.
\<close>

theorem file_not_found_before_printing:
  "(fs s p = None \<longrightarrow> print env p options s = (Inl (Error (''PDF file not found: '' @ p)), s))
 \<and> (fs s q = Some Dir \<longrightarrow> print env q options s = (Inl (Error (''Path is not a file: '' @ q)), s))
 \<and> (w_fs api p = None \<longrightarrow>
      win_print K mgr api this p wo tr = (Inl (Error (''PDF file not found: '' @ p)), tr))
 \<and> (w_fs api q = Some Dir \<longrightarrow>
      win_print K mgr api this q wo tr = (Inl (Error (''Path is not a file: '' @ q)), tr))"
  by (simp add: print_def win_print_def existsSync_def statSync_isFile_def w_isFile_def prog_defs)

theorem file_not_found_before_printing_witness:
  "fs demo_state ''missing.pdf'' = None
 \<and> print demo_env ''missing.pdf'' no_options demo_state
     = (Inl (Error ''PDF file not found: missing.pdf''), demo_state)
 \<and> fs demo_state ''/tmp'' = Some Dir
 \<and> print demo_env ''/tmp'' no_options demo_state
     = (Inl (Error ''Path is not a file: /tmp''), demo_state)
 \<and> w_fs demo_api ''missing.pdf'' = None
 \<and> win_print demo_consts demo_mgr demo_api \<lparr>w_printerName = ''HP''\<rparr> ''missing.pdf''
       no_win_options []
     = (Inl (Error ''PDF file not found: missing.pdf''), [])
 \<and> w_fs demo_api ''/tmp'' = Some Dir
 \<and> win_print demo_consts demo_mgr demo_api \<lparr>w_printerName = ''HP''\<rparr> ''/tmp'' no_win_options []
     = (Inl (Error ''Path is not a file: /tmp''), [])"
  using file_not_found_before_printing
          [of demo_state "''missing.pdf''" demo_env no_options "''/tmp''" demo_api demo_consts
              demo_mgr "\<lparr>w_printerName = ''HP''\<rparr>" no_win_options "[]"]
  by (simp add: demo_state_def demo_api_def demo_fs_def)

subsection \<open>Platform dispatch\<close>

text \<open>
  Claim C3. \<^verbatim>\<open>getPlatform\<close> returns \<^verbatim>\<open>windows\<close> exactly when \<^verbatim>\<open>os.platform()\<close> is \<^verbatim>\<open>win32\<close> and
  \<^verbatim>\<open>unix\<close> otherwise. On \<^verbatim>\<open>win32\<close> the constructor of the cross-platform \<^verbatim>\<open>PDFPrinter\<close> builds
  the Windows printer and the four static methods of \<^verbatim>\<open>PrinterManager\<close> return what the
  Windows manager returns; on any other platform the constructor builds the Unix printer,
  the first three methods are those of \<^verbatim>\<open>UnixPrinterManager\<close>, and
  \<^verbatim>\<open>getPrinterCapabilities\<close> returns \<^verbatim>\<open>null\<close>.
\<close>

theorem platform_dispatch:
  "(getPlatform os_platform = ''windows'' \<longleftrightarrow> os_platform = ''win32'')
 \<and> getPlatform os_platform = (if os_platform = ''win32'' then ''windows'' else ''unix'')
 \<and> PDFPrinter_new os_platform mgr pn =
       (if os_platform = ''win32''
        then map_sum id (\<lambda>p. \<lparr>impl = WindowsImpl p, isUnix = False\<rparr>) (WindowsPDFPrinter_new mgr pn)
        else map_sum id (\<lambda>p. \<lparr>impl = UnixImpl p, isUnix = True\<rparr>) (UnixPDFPrinter_new pn))
 \<and> PrinterManager_getAvailablePrinters os_platform mgr env s =
       (if os_platform = ''win32'' then (Inr (map WindowsInfo (mgr_getAvailablePrinters mgr)), s)
        else (case getAvailablePrinters env s of (r, s') \<Rightarrow> (map_sum id (map UnixInfo) r, s')))
 \<and> PrinterManager_getDefaultPrinter os_platform mgr env s =
       (if os_platform = ''win32'' then (Inr (mgr_getDefaultPrinter mgr), s)
        else getDefaultPrinter env s)
 \<and> PrinterManager_printerExists os_platform mgr env n s =
       (if os_platform = ''win32'' then (Inr (mgr_printerExists mgr n), s)
        else printerExists env n s)
 \<and> PrinterManager_getPrinterCapabilities os_platform mgr n =
       (if os_platform = ''win32'' then mgr_getPrinterCapabilities mgr n else None)"
  by (auto simp: getPlatform_def isWindows_def PDFPrinter_new_def
      PrinterManager_getAvailablePrinters_def PrinterManager_getDefaultPrinter_def
      PrinterManager_printerExists_def PrinterManager_getPrinterCapabilities_def prog_defs
      split: sum.splits prod.splits)

theorem platform_dispatch_witness:
  "getPlatform ''win32'' = ''windows'' \<and> getPlatform ''linux'' = ''unix''
 \<and> PDFPrinter_new ''win32'' demo_mgr (Some ''HP'')
     = Inr \<lparr>impl = WindowsImpl \<lparr>w_printerName = ''HP''\<rparr>, isUnix = False\<rparr>
 \<and> PDFPrinter_new ''linux'' demo_mgr (Some ''HP'')
     = Inr \<lparr>impl = UnixImpl \<lparr>printerName = ''HP'', initialized = False\<rparr>, isUnix = True\<rparr>
 \<and> PrinterManager_getPrinterCapabilities ''win32'' demo_mgr ''HP'' = Some ()
 \<and> PrinterManager_getPrinterCapabilities ''linux'' demo_mgr ''HP'' = None
 \<and> PrinterManager_printerExists ''win32'' demo_mgr demo_env ''HP'' demo_state = (Inr True, demo_state)
 \<and> PrinterManager_printerExists ''linux'' demo_mgr demo_env ''HP'' demo_state
     = printerExists demo_env ''HP'' demo_state
 \<and> PrinterManager_getDefaultPrinter ''win32'' demo_mgr demo_env demo_state
     = (Inr (Some ''HP''), demo_state)
 \<and> PrinterManager_getDefaultPrinter ''linux'' demo_mgr demo_env demo_state
     = getDefaultPrinter demo_env demo_state"
  using platform_dispatch [of "''win32''" demo_mgr "Some ''HP''" demo_env demo_state "''HP''"]
        platform_dispatch [of "''linux''" demo_mgr "Some ''HP''" demo_env demo_state "''HP''"]
  by (simp add: demo_mgr_def WindowsPDFPrinter_new_def UnixPDFPrinter_new_def truthy_def
        js_trim_def js_space_def)

subsection \<open>A failing \<^verbatim>\<open>lpstat\<close>\<close>

text \<open>
  Claim C8, as the code has it. When the \<^verbatim>\<open>lpstat\<close> command fails,
  \<^verbatim>\<open>UnixPrinterManager.getAvailablePrinters\<close> returns the empty list and
  \<^verbatim>\<open>UnixPrinterManager.getDefaultPrinter\<close> returns \<^verbatim>\<open>null\<close>: both catch the failure and
  return a value in its place; the caller does not see the failure.
\<close>

theorem lpstat_failure_is_swallowed:
  "(exec env ''lpstat -p -d 2>/dev/null || lpstat -p'' = ExecFail msg \<longrightarrow>
      fst (getAvailablePrinters env s) = Inr [])
 \<and> (exec env ''lpstat -d 2>/dev/null'' = ExecFail msg' \<longrightarrow>
      fst (getDefaultPrinter env s) = Inr None)"
  by (simp add: getAvailablePrinters_def getDefaultPrinter_def execAsync_def prog_defs Let_def)

theorem lpstat_failure_is_swallowed_witness:
  "exec no_cups_env ''lpstat -p -d 2>/dev/null || lpstat -p''
     = ExecFail ''Command failed: lpstat -p -d 2>/dev/null || lpstat -p''
 \<and> fst (getAvailablePrinters no_cups_env demo_state) = Inr []
 \<and> exec no_cups_env ''lpstat -d 2>/dev/null'' = ExecFail ''Command failed: lpstat -d 2>/dev/null''
 \<and> fst (getDefaultPrinter no_cups_env demo_state) = Inr None"
  using lpstat_failure_is_swallowed
          [of no_cups_env "''Command failed: lpstat -p -d 2>/dev/null || lpstat -p''" demo_state
              "''Command failed: lpstat -d 2>/dev/null''"]
  by (simp add: no_cups_env_def)

text \<open>
  Claim C8 as stated does not hold: on a machine where every command fails, both methods
  return normally, having run the command.
\<close>

theorem lpstat_failure_not_surfaced:
  "exec no_cups_env ''lpstat -p -d 2>/dev/null || lpstat -p''
     = ExecFail ''Command failed: lpstat -p -d 2>/dev/null || lpstat -p''
 \<and> getAvailablePrinters no_cups_env demo_state
     = (Inr [], demo_state\<lparr>cmds := [''lpstat -p -d 2>/dev/null || lpstat -p'']\<rparr>)
 \<and> exec no_cups_env ''lpstat -d 2>/dev/null'' = ExecFail ''Command failed: lpstat -d 2>/dev/null''
 \<and> getDefaultPrinter no_cups_env demo_state
     = (Inr None, demo_state\<lparr>cmds := [''lpstat -d 2>/dev/null'']\<rparr>)"
  by (simp add: no_cups_env_def getAvailablePrinters_def getDefaultPrinter_def execAsync_def
        prog_defs Let_def demo_state_def)

subsection \<open>Failing spooler calls\<close>

text \<open>
  Claim C6 at a failing input. \<^verbatim>\<open>StartDocPrinterW\<close> succeeds, then \<^verbatim>\<open>StartPagePrinter\<close>
  (for \<^verbatim>\<open>print\<close>) or \<^verbatim>\<open>WritePrinter\<close> (for \<^verbatim>\<open>printRaw\<close>) returns false while \<^verbatim>\<open>GetLastError\<close>
  would return 5. The error thrown is \<^verbatim>\<open>Failed to start page\<close>, or
  \<^verbatim>\<open>Failed to write data to printer\<close>: it carries no error code, and \<^verbatim>\<open>GetLastError\<close> is not
  among the calls made.
\<close>

theorem page_and_write_failures_carry_no_code:
  "win_print demo_consts demo_mgr page_fails_api \<lparr>w_printerName = ''HP''\<rparr> ''/tmp/report.pdf''
     no_win_options []
   = (Inl (Error ''Failed to start page''),
      [OpenPrinter ''HP'' (Returns 42),
       StartDoc 42 \<lparr>pDocName = ''report.pdf'', pOutputFile = None, pDatatype = ''RAW''\<rparr>
         (Returns (Some 7)),
       StartPage 42 (Returns False),
       EndDoc 42 (Returns True),
       ClosePrinter 42 (Returns ())])
 \<and> win_printRaw demo_mgr write_fails_api \<lparr>w_printerName = ''HP''\<rparr> [0x25, 0x50] None
     no_win_options []
   = (Inl (Error ''Failed to write data to printer''),
      [OpenPrinter ''HP'' (Returns 42),
       StartDoc 42 \<lparr>pDocName = ''Document'', pOutputFile = None, pDatatype = ''RAW''\<rparr>
         (Returns (Some 7)),
       StartPage 42 (Returns True),
       Write 42 [0x25, 0x50] (Returns (False, 0)),
       EndPage 42 (Returns True),
       EndDoc 42 (Returns True),
       ClosePrinter 42 (Returns ())])"
  by (simp add: win_defs prog_defs page_fails_api_def write_fails_api_def demo_api_def demo_mgr_def
        demo_fs_def no_win_options_def truthy_def Let_def)

text \<open>
  The sibling path does carry the code: when \<^verbatim>\<open>StartDocPrinterW\<close> returns 0 or \<^verbatim>\<open>undefined\<close>,
  both methods throw the message with the value of \<^verbatim>\<open>GetLastError\<close> (0 when that call throws),
  provided \<^verbatim>\<open>closePrinter\<close> does not throw in its turn.
\<close>

lemma start_doc_failure_carries_code:
  assumes "mgr_openPrinter mgr
             (if truthy (w_printer wo) then the (w_printer wo) else w_printerName this)
           = Returns h"
    and "StartDocPrinterW api h 1 doc = Returns job" and "job = None \<or> job = Some 0"
    and "mgr_closePrinter mgr h = Returns ()"
  shows "doc = \<lparr>pDocName = (case dn of None \<Rightarrow> ''Document'' | Some n \<Rightarrow> n),
                pOutputFile = None, pDatatype = ''RAW''\<rparr>
         \<Longrightarrow> fst (win_printRaw mgr api this buf dn wo tr)
               = Inl (Error (''Failed to start print job. Windows error code: ''
                             @ dword_toString (case GetLastError api of
                                               Returns code \<Rightarrow> code | Throws msg \<Rightarrow> 0)))"
    and "w_fs api f = Some (File d)
         \<Longrightarrow> doc = \<lparr>pDocName = w_basename api f, pOutputFile = None, pDatatype = ''RAW''\<rparr>
         \<Longrightarrow> fst (win_print K mgr api this f wo tr)
               = Inl (Error (''Failed to start print job. Windows error code: ''
                             @ dword_toString (case GetLastError api of
                                               Returns code \<Rightarrow> code | Throws msg \<Rightarrow> 0)))"
  using assms
  by (auto simp: win_defs prog_defs Let_def split: resp.splits)

subsection \<open>What the manager's methods do to the state\<close>

lemma getDefaultPrinter_result:
  "fst (getDefaultPrinter env s) =
     Inr (case exec env ''lpstat -d 2>/dev/null'' of
            ExecOk out err \<Rightarrow> search_default out | ExecFail msg \<Rightarrow> None)"
  by (simp add: getDefaultPrinter_def execAsync_def prog_defs Let_def split: exec_result.splits)

lemma getAvailablePrinters_any_state:
  "fst (getAvailablePrinters env s) = fst (getAvailablePrinters env s')"
  by (simp add: getAvailablePrinters_def getDefaultPrinter_def execAsync_def prog_defs Let_def
      split: exec_result.splits)

lemma getAvailablePrinters_returns: "\<exists>ps. fst (getAvailablePrinters env s) = Inr ps"
  by (simp add: getAvailablePrinters_def getDefaultPrinter_def execAsync_def prog_defs Let_def
      split: exec_result.splits)

lemma initialize_named_missing:
  assumes "\<not> initialized s" and "printerName s \<noteq> []"
    and "fst (getAvailablePrinters env s) = Inr ps" and "printerName s \<notin> name ` set ps"
  shows "fst (initialize env s) = Inl (Error (''Printer not found: '' @ printerName s))"
  using assms
  by (cases "getAvailablePrinters env s")
     (force simp: initialize_def printerExists_def prog_defs truthy_def)

lemma initialize_no_printers:
  assumes "\<not> initialized s" and "printerName s = []"
    and "fst (getDefaultPrinter env s) = Inr d" and "\<not> truthy d"
    and "fst (getAvailablePrinters env s) = Inr []"
  shows "fst (initialize env s) = Inl (Error ''No printers found on this system'')"
proof -
  obtain s1 where d: "getDefaultPrinter env s = (Inr d, s1)"
    using assms(3) by (cases "getDefaultPrinter env s") auto
  have "fst (getAvailablePrinters env s1) = Inr []"
    using assms(5) getAvailablePrinters_any_state [of env s1 s] by simp
  then obtain s2 where a: "getAvailablePrinters env s1 = (Inr [], s2)"
    by (cases "getAvailablePrinters env s1") auto
  show ?thesis
    using assms(1,2,4) d a by (simp add: initialize_def prog_defs truthy_def)
qed

lemma print_regular_file:
  assumes "fs s f = Some (File d)"
  shows "print env f options s =
     (case initialize env s of
        (Inl e, s1) \<Rightarrow> (Inl e, s1)
      | (Inr u, s1) \<Rightarrow>
          (case exec env (lp_command (printerName s1) options f) of
             ExecFail msg \<Rightarrow> Inl (Error (''Failed to print: '' @ msg))
           | ExecOk out err \<Rightarrow>
               if err \<noteq> [] \<and> \<not> js_includes err ''request id''
               then Inl (Error (''Failed to print: Print command failed: '' @ err))
               else Inr (),
           s1\<lparr>cmds := cmds s1 @ [lp_command (printerName s1) options f]\<rparr>))"
  using assms
  by (cases "initialize env s")
     (auto simp: print_def existsSync_def statSync_isFile_def execAsync_def prog_defs Let_def
        split: sum.splits exec_result.splits)

subsection \<open>The command line of \<^verbatim>\<open>lp\<close>\<close>
















lemma demo_initialize:
  "initialize (lp_env r) demo_state
     = (Inr (), demo_state\<lparr>initialized := True,
                           cmds := [''lpstat -p -d 2>/dev/null || lpstat -p'', ''lpstat -d 2>/dev/null'']\<rparr>)"
  by (simp add: unix_defs prog_defs lpstat_eval lp_env_def demo_env_def demo_exec_def demo_state_def)

lemma demo_file: "fs demo_state ''/tmp/report.pdf'' = Some (File [0x25, 0x50, 0x44, 0x46])"
  by (simp add: demo_state_def demo_fs_def)




subsection \<open>The outcome of the \<^verbatim>\<open>lp\<close> command\<close>

text \<open>
  Claim C7. Once the file has been checked and the printer initialised, the outcome of
  \<^verbatim>\<open>print\<close> is decided by the \<^verbatim>\<open>lp\<close> command: when the command fails with message \<open>msg\<close>,
  \<^verbatim>\<open>print\<close> throws \<^verbatim>\<open>Failed to print: <msg>\<close>; when it writes to \<^verbatim>\<open>stderr\<close> a non-empty
  text without \<^verbatim>\<open>request id\<close> in it, \<^verbatim>\<open>print\<close> throws
  \<^verbatim>\<open>Failed to print: Print command failed: <stderr>\<close>; when \<^verbatim>\<open>stderr\<close> is empty or contains
  \<^verbatim>\<open>request id\<close>, \<^verbatim>\<open>print\<close> returns without throwing.
\<close>

theorem cli_failure_carries_stderr:
  assumes "fs s f = Some (File d)" and "initialize env s = (Inr (), s1)"
  shows "fst (print env f options s) =
     (case exec env (lp_command (printerName s1) options f) of
        ExecFail msg \<Rightarrow> Inl (Error (''Failed to print: '' @ msg))
      | ExecOk out err \<Rightarrow>
          if err \<noteq> [] \<and> \<not> js_includes err ''request id''
          then Inl (Error (''Failed to print: Print command failed: '' @ err))
          else Inr ())"
  using assms by (simp add: print_regular_file)

theorem cli_failure_carries_stderr_witness:
  "fs demo_state ''/tmp/report.pdf'' = Some (File [0x25, 0x50, 0x44, 0x46])
 \<and> fst (print (lp_env (ExecOk [] ''lp: Error - The printer or class does not exist.''))
          ''/tmp/report.pdf'' no_options demo_state)
     = Inl (Error ''Failed to print: Print command failed: lp: Error - The printer or class does not exist.'')
 \<and> fst (print (lp_env (ExecFail ''Command failed: lp -d HP /tmp/report.pdf''))
          ''/tmp/report.pdf'' no_options demo_state)
     = Inl (Error ''Failed to print: Command failed: lp -d HP /tmp/report.pdf'')
 \<and> fst (print (lp_env (ExecOk [] ''request id is HP-7 (1 file(s))''))
          ''/tmp/report.pdf'' no_options demo_state)
     = Inr ()
 \<and> fst (print (lp_env (ExecOk ''request id is HP-7 (1 file(s))'' []))
          ''/tmp/report.pdf'' no_options demo_state)
     = Inr ()"
  using cli_failure_carries_stderr
          [OF demo_file demo_initialize
                [of "ExecOk [] ''lp: Error - The printer or class does not exist.''"],
           of no_options]
        cli_failure_carries_stderr
          [OF demo_file demo_initialize [of "ExecFail ''Command failed: lp -d HP /tmp/report.pdf''"],
           of no_options]
        cli_failure_carries_stderr
          [OF demo_file demo_initialize [of "ExecOk [] ''request id is HP-7 (1 file(s))''"],
           of no_options]
        cli_failure_carries_stderr
          [OF demo_file demo_initialize [of "ExecOk ''request id is HP-7 (1 file(s))'' []"],
           of no_options]
        demo_file
  by (simp add: lp_env_def lp_command_def lp_args_def lp_printer_def no_options_def truthy_def
        Let_def demo_state_def)

subsection \<open>No such printer\<close>

text \<open>
  Claim C5. The constructor of the Windows \<^verbatim>\<open>PDFPrinter\<close> returns the error
  \<^verbatim>\<open>Printer not found: <name>\<close> for a name of which \<^verbatim>\<open>PrinterManager.printerExists\<close> is false.
  A \<^verbatim>\<open>UnixPDFPrinter\<close> constructed with a name that is not the name of any printer that
  \<^verbatim>\<open>getAvailablePrinters\<close> reads from \<^verbatim>\<open>lpstat\<close> throws that error from \<^verbatim>\<open>initialize\<close>, and so
  from the first \<^verbatim>\<open>print\<close> of an existing regular file. Without a name, when there is no
  default printer and the list of printers is empty, the Windows constructor and the Unix
  \<^verbatim>\<open>initialize\<close> throw \<^verbatim>\<open>No printers found on this system\<close>.
\<close>

theorem printer_not_found:
  "(n \<noteq> [] \<and> \<not> mgr_printerExists mgr n \<longrightarrow>
      WindowsPDFPrinter_new mgr (Some n) = Inl (Error (''Printer not found: '' @ n)))
 \<and> (n \<noteq> [] \<and> UnixPDFPrinter_new (Some n) = Inr this
      \<and> fst (getAvailablePrinters env (world_of this files)) = Inr ps \<and> n \<notin> name ` set ps \<longrightarrow>
      fst (initialize env (world_of this files)) = Inl (Error (''Printer not found: '' @ n))
      \<and> (\<forall>f d options. files f = Some (File d) \<longrightarrow>
            fst (print env f options (world_of this files))
              = Inl (Error (''Printer not found: '' @ n))))
 \<and> (\<not> truthy pn \<and> \<not> truthy (mgr_getDefaultPrinter mgr0) \<and> mgr_getAvailablePrinters mgr0 = [] \<longrightarrow>
      WindowsPDFPrinter_new mgr0 pn = Inl (Error ''No printers found on this system''))
 \<and> (\<not> truthy pn \<and> UnixPDFPrinter_new pn = Inr this0
      \<and> fst (getDefaultPrinter env0 (world_of this0 files)) = Inr None
      \<and> fst (getAvailablePrinters env0 (world_of this0 files)) = Inr [] \<longrightarrow>
      fst (initialize env0 (world_of this0 files))
        = Inl (Error ''No printers found on this system''))"
proof (intro conjI impI)
  assume "n \<noteq> [] \<and> \<not> mgr_printerExists mgr n"
  then show "WindowsPDFPrinter_new mgr (Some n) = Inl (Error (''Printer not found: '' @ n))"
    by (simp add: WindowsPDFPrinter_new_def truthy_def)
next
  assume a: "n \<noteq> [] \<and> UnixPDFPrinter_new (Some n) = Inr this
      \<and> fst (getAvailablePrinters env (world_of this files)) = Inr ps \<and> n \<notin> name ` set ps"
  then have this: "printerName this = n" "\<not> initialized this"
    by (auto simp: UnixPDFPrinter_new_def truthy_def Let_def split: if_splits)
  then have w: "printerName (world_of this files) = n" "\<not> initialized (world_of this files)"
    by (simp_all add: world_of_def)
  show i: "fst (initialize env (world_of this files)) = Inl (Error (''Printer not found: '' @ n))"
    using initialize_named_missing [of "world_of this files" env ps] a w by simp
  show "\<forall>f d options. files f = Some (File d) \<longrightarrow>
          fst (print env f options (world_of this files)) = Inl (Error (''Printer not found: '' @ n))"
  proof (intro allI impI)
    fix f d options
    assume "files f = Some (File d)"
    then have "fs (world_of this files) f = Some (File d)" by (simp add: world_of_def)
    then show "fst (print env f options (world_of this files))
                 = Inl (Error (''Printer not found: '' @ n))"
      using i by (cases "initialize env (world_of this files)") (auto simp: print_regular_file)
  qed
next
  assume "\<not> truthy pn \<and> \<not> truthy (mgr_getDefaultPrinter mgr0) \<and> mgr_getAvailablePrinters mgr0 = []"
  then show "WindowsPDFPrinter_new mgr0 pn = Inl (Error ''No printers found on this system'')"
    by (simp add: WindowsPDFPrinter_new_def)
next
  assume a: "\<not> truthy pn \<and> UnixPDFPrinter_new pn = Inr this0
      \<and> fst (getDefaultPrinter env0 (world_of this0 files)) = Inr None
      \<and> fst (getAvailablePrinters env0 (world_of this0 files)) = Inr []"
  then have "printerName this0 = []" "\<not> initialized this0"
    by (auto simp: UnixPDFPrinter_new_def Let_def split: if_splits)
  then have w: "printerName (world_of this0 files) = []" "\<not> initialized (world_of this0 files)"
    by (simp_all add: world_of_def)
  show "fst (initialize env0 (world_of this0 files)) = Inl (Error ''No printers found on this system'')"
    using initialize_no_printers [of "world_of this0 files" env0 None] a w
    by (simp add: truthy_def)
qed

theorem printer_not_found_witness:
  "''Ghost'' \<noteq> [] \<and> \<not> mgr_printerExists demo_mgr ''Ghost''
 \<and> WindowsPDFPrinter_new demo_mgr (Some ''Ghost'') = Inl (Error ''Printer not found: Ghost'')
 \<and> UnixPDFPrinter_new (Some ''Ghost'') = Inr ghost
 \<and> fst (getAvailablePrinters demo_env (world_of ghost demo_fs))
     = Inr [\<lparr>name = ''HP'', description = None, location = None,
             status = Some ''is idle.  enabled since Mon 01 Jan 2024'', isDefault = Some True\<rparr>]
 \<and> fst (initialize demo_env (world_of ghost demo_fs)) = Inl (Error ''Printer not found: Ghost'')
 \<and> demo_fs ''/tmp/report.pdf'' = Some (File [0x25, 0x50, 0x44, 0x46])
 \<and> fst (print demo_env ''/tmp/report.pdf'' no_options (world_of ghost demo_fs))
     = Inl (Error ''Printer not found: Ghost'')
 \<and> \<not> truthy None \<and> \<not> truthy (mgr_getDefaultPrinter bare_mgr) \<and> mgr_getAvailablePrinters bare_mgr = []
 \<and> WindowsPDFPrinter_new bare_mgr None = Inl (Error ''No printers found on this system'')
 \<and> UnixPDFPrinter_new None = Inr \<lparr>printerName = [], initialized = False\<rparr>
 \<and> fst (getDefaultPrinter bare_env (world_of \<lparr>printerName = [], initialized = False\<rparr> demo_fs)) = Inr None
 \<and> fst (getAvailablePrinters bare_env (world_of \<lparr>printerName = [], initialized = False\<rparr> demo_fs)) = Inr []
 \<and> fst (initialize bare_env (world_of \<lparr>printerName = [], initialized = False\<rparr> demo_fs))
     = Inl (Error ''No printers found on this system'')"
proof -
  have a: "fst (getAvailablePrinters demo_env (world_of ghost demo_fs))
     = Inr [\<lparr>name = ''HP'', description = None, location = None,
             status = Some ''is idle.  enabled since Mon 01 Jan 2024'', isDefault = Some True\<rparr>]"
    by (simp add: unix_defs prog_defs lpstat_eval demo_env_def demo_exec_def)
  have b: "fst (getDefaultPrinter bare_env (world_of \<lparr>printerName = [], initialized = False\<rparr> demo_fs)) = Inr None"
    by (simp add: unix_defs prog_defs lpstat_eval bare_env_def bare_exec_def)
  have c: "fst (getAvailablePrinters bare_env (world_of \<lparr>printerName = [], initialized = False\<rparr> demo_fs)) = Inr []"
    by (simp add: unix_defs prog_defs lpstat_eval bare_env_def bare_exec_def)
  have d: "UnixPDFPrinter_new (Some ''Ghost'') = Inr ghost"
    "UnixPDFPrinter_new None = Inr \<lparr>printerName = [], initialized = False\<rparr>"
    by (simp_all add: UnixPDFPrinter_new_def ghost_def truthy_def js_trim_def js_space_def)
  have f: "demo_fs ''/tmp/report.pdf'' = Some (File [0x25, 0x50, 0x44, 0x46])"
    by (simp add: demo_fs_def)
  show ?thesis
    using printer_not_found
            [where n = "''Ghost''" and mgr = demo_mgr and this = ghost and env = demo_env
               and files = demo_fs
               and ps = "[\<lparr>name = ''HP'', description = None, location = None,
                           status = Some ''is idle.  enabled since Mon 01 Jan 2024'',
                           isDefault = Some True\<rparr>]"
               and pn = None and ?mgr0.0 = bare_mgr
               and ?this0.0 = "\<lparr>printerName = [], initialized = False\<rparr>" and ?env0.0 = bare_env]
          a b c d f
    by (simp add: demo_mgr_def bare_mgr_def truthy_def)
qed

subsection \<open>The native calls of a print job\<close>

lemma send_pages_trace: "snd (send_pages api h buf tr) = tr @ page_events api h buf"
  by (simp add: send_pages_def page_events_def call_def prog_defs
      split: resp.splits prod.splits sum.splits bool.splits)

lemma snd_seq_call:
  "snd (seq (call ev r) f tr) =
     (case r of Returns x \<Rightarrow> snd (f x (tr @ [ev r])) | Throws msg \<Rightarrow> tr @ [ev r])"
  by (simp add: seq_def call_def split: resp.splits)

lemma snd_open_printer:
  "snd (seq (call (OpenPrinter pn) r) f tr) =
     (case r of Returns h \<Rightarrow> snd (f h (tr @ [OpenPrinter pn r]))
      | Throws msg \<Rightarrow> tr @ [OpenPrinter pn r])"
  by (rule snd_seq_call)

lemma snd_finally_call: "snd (try_finally body (call ev r) tr) = snd (body tr) @ [ev r]"
  by (cases "body tr") (simp add: try_finally_def call_def split: resp.splits)

lemma snd_getLastError_throw:
  "snd (seq (getLastError api) (\<lambda>lastError. throw (msg lastError)) tr)
     = tr @ [LastError (GetLastError api)]"
  by (simp add: getLastError_def call_def prog_defs split: resp.splits)

lemma start_doc_trace:
  assumes "\<And>j. c j = (j = None \<or> j = Some 0)"
  shows "snd (seq (call (StartDoc h doc) (StartDocPrinterW api h 1 doc))
               (\<lambda>jobId. if c jobId
                         then seq (getLastError api) (\<lambda>lastError. throw (msg lastError))
                         else send_pages api h buf) tr)
         = tr @ doc_events api h doc buf"
  by (simp add: snd_seq_call assms snd_getLastError_throw send_pages_trace doc_events_def
      split: resp.splits option.splits)

lemma win_printRaw_trace:
  "snd (win_printRaw mgr api this buf dn wo tr) =
     tr @ job_events mgr api
            (if truthy (w_printer wo) then the (w_printer wo) else w_printerName this)
            \<lparr>pDocName = (case dn of None \<Rightarrow> ''Document'' | Some n \<Rightarrow> n), pOutputFile = None,
             pDatatype = ''RAW''\<rparr>
            buf"
proof -
  have c: "\<And>j. (j = Some (0::int) \<or> j = None) = (j = None \<or> j = Some 0)" by auto
  show ?thesis
    by (simp add: win_printRaw_def Let_def snd_open_printer snd_finally_call
          start_doc_trace [where c = "\<lambda>j. j = Some 0 \<or> j = None", OF c] job_events_def
        del: One_nat_def split: resp.splits)
qed

lemma win_print_trace:
  assumes "w_fs api f = Some (File d)"
  shows "snd (win_print K mgr api this f wo tr) =
     tr @ job_events mgr api
            (if truthy (w_printer wo) then the (w_printer wo) else w_printerName this)
            \<lparr>pDocName = w_basename api f, pOutputFile = None, pDatatype = ''RAW''\<rparr> d"
proof -
  have r: "\<And>g t. seq (w_readFileSync api f) g t = g d t"
    using assms by (simp add: w_readFileSync_def prog_defs)
  show ?thesis
    using assms
    by (simp add: win_print_def Let_def snd_open_printer snd_finally_call r
          start_doc_trace [where c = "\<lambda>j. j = None \<or> j = Some 0"] job_events_def w_isFile_def
        del: One_nat_def split: resp.splits)
qed

lemma win_print_trace_no_file:
  assumes "\<forall>d. w_fs api f \<noteq> Some (File d)"
  shows "snd (win_print K mgr api this f wo tr) = tr"
  using assms
  by (cases "w_fs api f") (auto simp: win_print_def prog_defs w_isFile_def split: node.splits)

lemma job_events_paired: "all_paired (job_events mgr api pn doc buf)"
  by (auto simp: all_paired_def job_events_def doc_events_def page_events_def
        opened_printer_def closes_printer_def started_doc_def ends_doc_def
        started_page_def ends_page_def
      split: resp.splits option.splits bool.splits)

text \<open>
  Claim C9. In every execution of the Windows \<^verbatim>\<open>print\<close> and \<^verbatim>\<open>printRaw\<close>, whatever the native
  calls return or throw, the calls made by the time the method returns or throws are
  paired: a successful \<^verbatim>\<open>openPrinter\<close> is followed by \<^verbatim>\<open>closePrinter\<close> on its handle, a
  \<^verbatim>\<open>StartDocPrinterW\<close> that returned a job id other than zero by \<^verbatim>\<open>EndDocPrinter\<close>, and a
  successful \<^verbatim>\<open>StartPagePrinter\<close> by \<^verbatim>\<open>EndPagePrinter\<close>.
\<close>

theorem spooler_calls_are_paired:
  "all_paired (snd (win_print K mgr api this f wo []))
 \<and> all_paired (snd (win_printRaw mgr api this buf dn wo []))"
proof
  show "all_paired (snd (win_print K mgr api this f wo []))"
  proof (cases "\<exists>d. w_fs api f = Some (File d)")
    case True
    then obtain d where "w_fs api f = Some (File d)" ..
    then show ?thesis by (simp add: win_print_trace job_events_paired)
  next
    case False
    then have "snd (win_print K mgr api this f wo []) = []"
      by (intro win_print_trace_no_file) simp
    then show ?thesis by (simp add: all_paired_def)
  qed
  show "all_paired (snd (win_printRaw mgr api this buf dn wo []))"
    by (simp add: win_printRaw_trace job_events_paired)
qed

theorem spooler_calls_are_paired_witness:
  "snd (win_print demo_consts demo_mgr demo_api \<lparr>w_printerName = ''HP''\<rparr> ''/tmp/report.pdf''
          no_win_options [])
     = [OpenPrinter ''HP'' (Returns 42),
        StartDoc 42 \<lparr>pDocName = ''report.pdf'', pOutputFile = None, pDatatype = ''RAW''\<rparr>
          (Returns (Some 7)),
        StartPage 42 (Returns True),
        Write 42 [0x25, 0x50, 0x44, 0x46] (Returns (True, 4)),
        EndPage 42 (Returns True),
        EndDoc 42 (Returns True),
        ClosePrinter 42 (Returns ())]
 \<and> all_paired (snd (win_print demo_consts demo_mgr demo_api \<lparr>w_printerName = ''HP''\<rparr>
                       ''/tmp/report.pdf'' no_win_options []))
 \<and> snd (win_printRaw demo_mgr write_fails_api \<lparr>w_printerName = ''HP''\<rparr> [0x25, 0x50] None
          no_win_options [])
     = [OpenPrinter ''HP'' (Returns 42),
        StartDoc 42 \<lparr>pDocName = ''Document'', pOutputFile = None, pDatatype = ''RAW''\<rparr>
          (Returns (Some 7)),
        StartPage 42 (Returns True),
        Write 42 [0x25, 0x50] (Returns (False, 0)),
        EndPage 42 (Returns True),
        EndDoc 42 (Returns True),
        ClosePrinter 42 (Returns ())]
 \<and> all_paired (snd (win_printRaw demo_mgr write_fails_api \<lparr>w_printerName = ''HP''\<rparr> [0x25, 0x50]
                       None no_win_options []))"
  using spooler_calls_are_paired
          [of demo_consts demo_mgr demo_api "\<lparr>w_printerName = ''HP''\<rparr>" "''/tmp/report.pdf''"
              no_win_options]
        spooler_calls_are_paired
          [of demo_consts demo_mgr write_fails_api "\<lparr>w_printerName = ''HP''\<rparr>" "''/tmp/report.pdf''"
              no_win_options "[0x25, 0x50]" None]
  by (simp add: win_defs prog_defs write_fails_api_def demo_api_def demo_mgr_def
        demo_fs_def no_win_options_def truthy_def Let_def)

subsection \<open>The temporary file of \<^verbatim>\<open>printRaw\<close>\<close>

lemma initialize_fs: "fs (snd (initialize env s)) = fs s"
  by (simp add: initialize_def printerExists_def getAvailablePrinters_def getDefaultPrinter_def
        execAsync_def set_printerName_def set_initialized_def prog_defs Let_def
      split: exec_result.splits)

lemma print_fs: "fs (snd (print env f options s)) = fs s"
proof (cases "fs s f")
  case None
  then show ?thesis by (simp add: print_def existsSync_def prog_defs)
next
  case (Some n)
  show ?thesis
  proof (cases n)
    case Dir
    with Some show ?thesis by (simp add: print_def existsSync_def statSync_isFile_def prog_defs)
  next
    case (File d)
    with Some have "fs s f = Some (File d)" by simp
    then show ?thesis
      using initialize_fs [of env s]
      by (cases "initialize env s") (auto simp: print_regular_file split: sum.splits)
  qed
qed

lemma cleanup_removes_file:
  assumes "fs s p \<noteq> Some Dir" and "unlink_file env p = None"
  shows "seq (existsSync p) (\<lambda>found. if found then unlinkSync env p else ret ()) s
           = (Inr (), s\<lparr>fs := (fs s)(p := None)\<rparr>)"
proof (cases "fs s p")
  case None
  then have "(fs s)(p := None) = fs s" by auto
  with None show ?thesis by (simp add: existsSync_def unlinkSync_def prog_defs)
next
  case (Some n)
  with assms obtain d where "n = File d" by (cases n) auto
  with Some assms show ?thesis by (simp add: existsSync_def unlinkSync_def prog_defs)
qed

lemma cleanup_leaves_only_on_error:
  assumes "fs (snd (seq (existsSync p) (\<lambda>found. if found then unlinkSync env p else ret ()) s)) p
             \<noteq> None"
  shows "\<exists>msg. seq (existsSync p) (\<lambda>found. if found then unlinkSync env p else ret ()) s
                 = (Inl (Error msg), s)
           \<and> (unlink_file env p = Some msg
              \<or> msg = ''EISDIR: illegal operation on a directory, unlink '' @ quoted p)"
  using assms
  by (cases "fs s p")
     (auto simp: existsSync_def unlinkSync_def prog_defs split: node.splits option.splits)

lemma printRaw_unfold:
  "printRaw env buf dn options =
     try_finally
       (seq (writeFileSync env (temp_file env dn) buf) (\<lambda>u. print env (temp_file env dn) options))
       (seq (existsSync (temp_file env dn)) (\<lambda>found.
          if found then unlinkSync env (temp_file env dn) else ret ()))"
  unfolding printRaw_def temp_file_def Let_def by (rule refl)

lemma printRaw_written:
  assumes "fs s (temp_file env dn) \<noteq> Some Dir" and "unlink_file env (temp_file env dn) = None"
    and "write_file env (temp_file env dn) buf = Written"
  shows "printRaw env buf dn options s =
     (case print env (temp_file env dn) options
             (s\<lparr>fs := (fs s)(temp_file env dn \<mapsto> File buf)\<rparr>) of
        (r, s') \<Rightarrow> (r, s'\<lparr>fs := (fs s')(temp_file env dn := None)\<rparr>))"
proof -
  let ?p = "temp_file env dn"
  let ?s1 = "s\<lparr>fs := (fs s)(?p \<mapsto> File buf)\<rparr>"
  have w: "writeFileSync env ?p buf s = (Inr (), ?s1)"
    using assms by (auto simp: writeFileSync_def split: option.splits node.splits)
  obtain r s' where p: "print env ?p options ?s1 = (r, s')" by (cases "print env ?p options ?s1")
  have "fs s' = fs ?s1" using print_fs [of env ?p options ?s1] p by simp
  then have "fs s' ?p \<noteq> Some Dir" by simp
  then have c: "seq (existsSync ?p) (\<lambda>found. if found then unlinkSync env ?p else ret ()) s'
                  = (Inr (), s'\<lparr>fs := (fs s')(?p := None)\<rparr>)"
    using assms(2) by (rule cleanup_removes_file)
  show ?thesis
    unfolding printRaw_unfold
    by (simp add: try_finally_def seq_def [of "writeFileSync env ?p buf"] w p c)
qed

lemma printRaw_write_failed:
  assumes "fs s (temp_file env dn) \<noteq> Some Dir" and "unlink_file env (temp_file env dn) = None"
    and "write_file env (temp_file env dn) buf = WriteFailed msg part"
  shows "printRaw env buf dn options s
           = (Inl (Error msg), s\<lparr>fs := (fs s)(temp_file env dn := None)\<rparr>)"
proof -
  let ?p = "temp_file env dn"
  define s1 where "s1 = (case part of None \<Rightarrow> s | Some d \<Rightarrow> s\<lparr>fs := (fs s)(?p \<mapsto> File d)\<rparr>)"
  have w: "writeFileSync env ?p buf s = (Inl (Error msg), s1)"
    using assms unfolding s1_def
    by (cases "fs s ?p"; cases part) (auto simp: writeFileSync_def split: node.splits)
  have s1: "s1 = s \<or> (\<exists>d. s1 = s\<lparr>fs := (fs s)(?p \<mapsto> File d)\<rparr>)"
    unfolding s1_def by (cases part) auto
  from s1 assms(1) have "fs s1 ?p \<noteq> Some Dir" by auto
  then have c: "seq (existsSync ?p) (\<lambda>found. if found then unlinkSync env ?p else ret ()) s1
                  = (Inr (), s1\<lparr>fs := (fs s1)(?p := None)\<rparr>)"
    using assms(2) by (rule cleanup_removes_file)
  from s1 have "s1\<lparr>fs := (fs s1)(?p := None)\<rparr> = s\<lparr>fs := (fs s)(?p := None)\<rparr>" by auto
  then show ?thesis
    unfolding printRaw_unfold
    by (simp add: try_finally_def seq_def [of "writeFileSync env ?p buf"] w c)
qed

lemma printRaw_outcome:
  assumes "fs s (temp_file env dn) \<noteq> Some Dir" and "unlink_file env (temp_file env dn) = None"
  shows "printRaw env buf dn options s =
     (case write_file env (temp_file env dn) buf of
        Written \<Rightarrow>
          (case print env (temp_file env dn) options
                  (s\<lparr>fs := (fs s)(temp_file env dn \<mapsto> File buf)\<rparr>) of
             (r, s') \<Rightarrow> (r, s'\<lparr>fs := (fs s')(temp_file env dn := None)\<rparr>))
      | WriteFailed msg part \<Rightarrow> (Inl (Error msg), s\<lparr>fs := (fs s)(temp_file env dn := None)\<rparr>))"
  using printRaw_written [OF assms] printRaw_write_failed [OF assms]
  by (cases "write_file env (temp_file env dn) buf") simp_all

lemma printRaw_removes:
  assumes "fs s (temp_file env dn) \<noteq> Some Dir" and "unlink_file env (temp_file env dn) = None"
  shows "fs (snd (printRaw env buf dn options s)) (temp_file env dn) = None"
  unfolding printRaw_outcome [OF assms]
  by (simp split: write_outcome.splits prod.splits)

lemma printRaw_leaves_only_on_error:
  assumes "fs (snd (printRaw env buf dn options s)) (temp_file env dn) \<noteq> None"
  shows "\<exists>msg. fst (printRaw env buf dn options s) = Inl (Error msg)
           \<and> (unlink_file env (temp_file env dn) = Some msg
              \<or> msg = ''EISDIR: illegal operation on a directory, unlink ''
                      @ quoted (temp_file env dn))"
proof -
  let ?p = "temp_file env dn"
  let ?body = "seq (writeFileSync env ?p buf) (\<lambda>u. print env ?p options)"
  let ?fin = "seq (existsSync ?p) (\<lambda>found. if found then unlinkSync env ?p else ret ())"
  obtain r s1 where b: "?body s = (r, s1)" by (cases "?body s")
  have e: "printRaw env buf dn options s
             = (case ?fin s1 of (Inl e, s2) \<Rightarrow> (Inl e, s2) | (Inr u, s2) \<Rightarrow> (r, s2))"
    unfolding printRaw_unfold by (simp add: try_finally_def b)
  have "snd (printRaw env buf dn options s) = snd (?fin s1)"
    unfolding e by (cases "?fin s1") (auto split: sum.splits)
  with assms have "fs (snd (?fin s1)) ?p \<noteq> None" by simp
  from cleanup_leaves_only_on_error [OF this] obtain msg
    where "?fin s1 = (Inl (Error msg), s1)"
      and "unlink_file env ?p = Some msg
           \<or> msg = ''EISDIR: illegal operation on a directory, unlink '' @ quoted ?p"
    by blast
  then show ?thesis unfolding e by auto
qed

lemma js_split_no_sep: "sep \<notin> set x \<Longrightarrow> js_split sep x = [x]"
  by (induction x) auto

lemma js_split_append_sep: "sep \<notin> set x \<Longrightarrow> js_split sep (x @ sep # y) = x # js_split sep y"
  by (induction x) auto

lemma number_toString_no_slash: "CHR ''/'' \<notin> set (number_toString k)"
proof -
  have "CHR ''/'' \<notin> set (decimal_nat n)" for n
  proof
    assume "CHR ''/'' \<in> set (decimal_nat n)"
    with decimal_nat_digits [of n] have "CHR ''/'' \<in> set ''0123456789''"
      by (rule subsetD)
    then show False by simp
  qed
  then show ?thesis by (simp add: number_toString_def decimal_int_def)
qed

lemma path_join_tmp:
  assumes "CHR ''/'' \<notin> set n"
  shows "path_join ''/tmp'' (n @ ''-'' @ number_toString k @ ''.pdf'')
           = ''/tmp/'' @ n @ ''-'' @ number_toString k @ ''.pdf''"
proof -
  let ?seg = "n @ ''-'' @ number_toString k @ ''.pdf''"
  have slash: "CHR ''/'' \<notin> set ?seg"
    using assms number_toString_no_slash [of k] by simp
  have "length ?seg > 2" by simp
  then have seg: "?seg \<noteq> []" "?seg \<noteq> ''.''" "?seg \<noteq> ''..''"
    by (auto simp del: append_eq_Cons_conv Cons_eq_append_conv dest: arg_cong [where f = length])
  have "js_split CHR ''/'' (''/tmp'' @ ''/'' @ ?seg) = [[], ''tmp'', ?seg]"
    using js_split_append_sep [of "CHR ''/''" "''tmp''" ?seg] js_split_no_sep [OF slash]
    by simp
  moreover have "last (''/tmp'' @ ''/'' @ ?seg) = CHR ''f''" by simp
  ultimately show ?thesis
    using seg by (simp add: path_join_def Let_def)
qed

text \<open>
  Claim C10, as the code has it. The Unix \<^verbatim>\<open>printRaw\<close> writes the data to the path
  \<^verbatim>\<open>path.join('/tmp', '<documentName>-<timestamp>.pdf')\<close>, which is
  \<^verbatim>\<open>/tmp/<documentName>-<timestamp>.pdf\<close> when the document name contains no slash (and for
  the default name). When \<^verbatim>\<open>unlinkSync\<close> cannot throw at that path (no directory sits there
  and the system does not refuse to unlink the file): if the write succeeds, \<^verbatim>\<open>printRaw\<close>
  prints that file with \<^verbatim>\<open>print\<close>, deletes it, and returns or throws what \<^verbatim>\<open>print\<close> returned or
  threw; if the write fails, it deletes what the write left and throws the error of the
  write; in both cases nothing is left at the path. In every case, if anything is left at
  the path when \<^verbatim>\<open>printRaw\<close> completes, then \<^verbatim>\<open>unlinkSync\<close> threw and \<^verbatim>\<open>printRaw\<close> throws that
  error.
\<close>

theorem temp_file_is_removed:
  "(CHR ''/'' \<notin> set n \<longrightarrow>
      temp_file env (Some n) = ''/tmp/'' @ n @ ''-'' @ number_toString (date_now env) @ ''.pdf'')
 \<and> temp_file env None = ''/tmp/Document-'' @ number_toString (date_now env) @ ''.pdf''
 \<and> (fs s (temp_file env dn) \<noteq> Some Dir \<and> unlink_file env (temp_file env dn) = None \<longrightarrow>
      printRaw env buf dn options s =
        (case write_file env (temp_file env dn) buf of
           Written \<Rightarrow>
             (case print env (temp_file env dn) options
                     (s\<lparr>fs := (fs s)(temp_file env dn \<mapsto> File buf)\<rparr>) of
                (r, s') \<Rightarrow> (r, s'\<lparr>fs := (fs s')(temp_file env dn := None)\<rparr>))
         | WriteFailed msg part \<Rightarrow>
             (Inl (Error msg), s\<lparr>fs := (fs s)(temp_file env dn := None)\<rparr>))
      \<and> fs (snd (printRaw env buf dn options s)) (temp_file env dn) = None)
 \<and> (fs (snd (printRaw env buf dn options s)) (temp_file env dn) \<noteq> None \<longrightarrow>
      (\<exists>msg. fst (printRaw env buf dn options s) = Inl (Error msg)
         \<and> (unlink_file env (temp_file env dn) = Some msg
            \<or> msg = ''EISDIR: illegal operation on a directory, unlink ''
                    @ quoted (temp_file env dn))))"
proof (intro conjI impI)
  assume "CHR ''/'' \<notin> set n"
  then show "temp_file env (Some n)
               = ''/tmp/'' @ n @ ''-'' @ number_toString (date_now env) @ ''.pdf''"
    unfolding temp_file_def using path_join_tmp [of n "date_now env"] by simp
next
  show "temp_file env None = ''/tmp/Document-'' @ number_toString (date_now env) @ ''.pdf''"
    unfolding temp_file_def using path_join_tmp [of "''Document''" "date_now env"] by simp
next
  assume a: "fs s (temp_file env dn) \<noteq> Some Dir \<and> unlink_file env (temp_file env dn) = None"
  show "printRaw env buf dn options s =
        (case write_file env (temp_file env dn) buf of
           Written \<Rightarrow>
             (case print env (temp_file env dn) options
                     (s\<lparr>fs := (fs s)(temp_file env dn \<mapsto> File buf)\<rparr>) of
                (r, s') \<Rightarrow> (r, s'\<lparr>fs := (fs s')(temp_file env dn := None)\<rparr>))
         | WriteFailed msg part \<Rightarrow>
             (Inl (Error msg), s\<lparr>fs := (fs s)(temp_file env dn := None)\<rparr>))"
    using a by (intro printRaw_outcome) simp_all
  show "fs (snd (printRaw env buf dn options s)) (temp_file env dn) = None"
    using a by (intro printRaw_removes) simp_all
next
  assume "fs (snd (printRaw env buf dn options s)) (temp_file env dn) \<noteq> None"
  then show "\<exists>msg. fst (printRaw env buf dn options s) = Inl (Error msg)
         \<and> (unlink_file env (temp_file env dn) = Some msg
            \<or> msg = ''EISDIR: illegal operation on a directory, unlink ''
                    @ quoted (temp_file env dn))"
    by (rule printRaw_leaves_only_on_error)
qed

lemma demo_temp_file:
  "temp_file demo_env None = ''/tmp/Document-1700000000000.pdf''"
  "temp_file sticky_env None = ''/tmp/Document-1700000000000.pdf''"
  "temp_file demo_env (Some ''Document'') = ''/tmp/Document-1700000000000.pdf''"
  "temp_file demo_env (Some ''a/../b'') = ''/tmp/b-1700000000000.pdf''"
  by (simp_all add: temp_file_def path_join_def demo_env_def sticky_env_def number_toString_def
        safe_inverse decimal_int_def decimal_nat.simps digit_char_def Let_def)

lemma demo_print_temp:
  "print (demo_env\<lparr>unlink_file := u\<rparr>) p no_options
     \<lparr>printerName = ''HP'', initialized = False, fs = F(p \<mapsto> File buf), cmds = []\<rparr>
     = (Inr (),
        \<lparr>printerName = ''HP'', initialized = True, fs = F(p \<mapsto> File buf),
         cmds = [''lpstat -p -d 2>/dev/null || lpstat -p'', ''lpstat -d 2>/dev/null'',
                 ''lp -d HP '' @ p]\<rparr>)"
  by (simp add: unix_defs prog_defs lpstat_eval demo_env_def demo_exec_def
        lp_command_def lp_args_def lp_printer_def no_options_def)

lemma sticky_printRaw:
  "printRaw sticky_env [0x25, 0x50] None no_options sticky_state
     = (Inl (Error (''EPERM: operation not permitted, unlink ''
                    @ quoted ''/tmp/Document-1700000000000.pdf'')),
        sticky_state
          \<lparr>fs := (fs sticky_state)(''/tmp/Document-1700000000000.pdf'' \<mapsto> File [0x25, 0x50]),
           initialized := True,
           cmds := [''lpstat -p -d 2>/dev/null || lpstat -p'', ''lpstat -d 2>/dev/null'',
                    ''lp -d HP /tmp/Document-1700000000000.pdf'']\<rparr>)"
proof -
  let ?p = "''/tmp/Document-1700000000000.pdf''"
  let ?s1 = "sticky_state\<lparr>fs := (fs sticky_state)(?p \<mapsto> File [0x25, 0x50])\<rparr>"
  let ?s2 = "sticky_state
          \<lparr>fs := (fs sticky_state)(?p \<mapsto> File [0x25, 0x50]),
           initialized := True,
           cmds := [''lpstat -p -d 2>/dev/null || lpstat -p'', ''lpstat -d 2>/dev/null'',
                    ''lp -d HP /tmp/Document-1700000000000.pdf'']\<rparr>"
  have w: "writeFileSync sticky_env ?p [0x25, 0x50] sticky_state = (Inr (), ?s1)"
    by (simp add: writeFileSync_def sticky_env_def sticky_state_def demo_env_def)
  have p: "print sticky_env ?p no_options ?s1 = (Inr (), ?s2)"
    using demo_print_temp [of "unlink_file sticky_env" ?p "fs sticky_state" "[0x25, 0x50]"]
    by (simp add: sticky_env_def sticky_state_def demo_state_def)
  have b: "seq (writeFileSync sticky_env ?p [0x25, 0x50]) (\<lambda>u. print sticky_env ?p no_options)
             sticky_state = (Inr (), ?s2)"
    by (simp add: seq_def w p)
  have c: "seq (existsSync ?p) (\<lambda>found. if found then unlinkSync sticky_env ?p else ret ()) ?s2
             = (Inl (Error (''EPERM: operation not permitted, unlink '' @ quoted ?p)), ?s2)"
    by (simp add: seq_def existsSync_def unlinkSync_def sticky_env_def)
  show ?thesis
    unfolding printRaw_unfold demo_temp_file try_finally_def b by (simp add: c)
qed

theorem temp_file_is_removed_witness:
  "CHR ''/'' \<notin> set ''Document''
 \<and> temp_file demo_env (Some ''Document'') = ''/tmp/Document-1700000000000.pdf''
 \<and> fs demo_state (temp_file demo_env None) \<noteq> Some Dir
 \<and> unlink_file demo_env (temp_file demo_env None) = None
 \<and> printRaw demo_env [0x25, 0x50] None no_options demo_state
     = (Inr (),
        demo_state\<lparr>initialized := True,
                    cmds := [''lpstat -p -d 2>/dev/null || lpstat -p'', ''lpstat -d 2>/dev/null'',
                             ''lp -d HP /tmp/Document-1700000000000.pdf'']\<rparr>)
 \<and> fs (snd (printRaw demo_env [0x25, 0x50] None no_options demo_state))
       (temp_file demo_env None) = None
 \<and> fs (snd (printRaw sticky_env [0x25, 0x50] None no_options sticky_state))
       (temp_file sticky_env None) \<noteq> None
 \<and> fst (printRaw sticky_env [0x25, 0x50] None no_options sticky_state)
     = Inl (Error (''EPERM: operation not permitted, unlink ''
                   @ quoted ''/tmp/Document-1700000000000.pdf''))
 \<and> unlink_file sticky_env (temp_file sticky_env None)
     = Some (''EPERM: operation not permitted, unlink '' @ quoted ''/tmp/Document-1700000000000.pdf'')"
proof -
  let ?p = "''/tmp/Document-1700000000000.pdf''"
  have f: "demo_fs(?p := None) = demo_fs"
    by (auto simp: demo_fs_def)
  have n: "CHR ''/'' \<notin> set ''Document''" by simp
  have h: "fs demo_state (temp_file demo_env None) \<noteq> Some Dir"
    "unlink_file demo_env (temp_file demo_env None) = None"
    unfolding demo_temp_file by (simp_all add: demo_state_def demo_fs_def demo_env_def)
  have w: "write_file demo_env ?p [0x25, 0x50] = Written"
    by (simp add: demo_env_def)
  from temp_file_is_removed
         [where env = demo_env and s = demo_state and dn = None and buf = "[0x25, 0x50]"
            and options = no_options] h
  have "printRaw demo_env [0x25, 0x50] None no_options demo_state =
        (case write_file demo_env (temp_file demo_env None) [0x25, 0x50] of
           Written \<Rightarrow>
             (case print demo_env (temp_file demo_env None) no_options
                     (demo_state\<lparr>fs := (fs demo_state)(temp_file demo_env None \<mapsto> File [0x25, 0x50])\<rparr>) of
                (r, s') \<Rightarrow> (r, s'\<lparr>fs := (fs s')(temp_file demo_env None := None)\<rparr>))
         | WriteFailed msg part \<Rightarrow>
             (Inl (Error msg), demo_state\<lparr>fs := (fs demo_state)(temp_file demo_env None := None)\<rparr>))"
    and r0: "fs (snd (printRaw demo_env [0x25, 0x50] None no_options demo_state))
               (temp_file demo_env None) = None"
    by blast+
  then have r1: "printRaw demo_env [0x25, 0x50] None no_options demo_state
     = (Inr (),
        demo_state\<lparr>initialized := True,
                    cmds := [''lpstat -p -d 2>/dev/null || lpstat -p'', ''lpstat -d 2>/dev/null'',
                             ''lp -d HP /tmp/Document-1700000000000.pdf'']\<rparr>)"
    unfolding demo_temp_file
    using demo_print_temp [of "\<lambda>p. None" ?p demo_fs "[0x25, 0x50]"]
    by (simp add: w f demo_state_def demo_env_def)
  have k: "fs (snd (printRaw sticky_env [0x25, 0x50] None no_options sticky_state))
             (temp_file sticky_env None) \<noteq> None"
    unfolding sticky_printRaw demo_temp_file by simp
  from temp_file_is_removed
         [where env = sticky_env and s = sticky_state and dn = None and buf = "[0x25, 0x50]"
            and options = no_options] k
  have "\<exists>msg. fst (printRaw sticky_env [0x25, 0x50] None no_options sticky_state) = Inl (Error msg)
         \<and> (unlink_file sticky_env (temp_file sticky_env None) = Some msg
            \<or> msg = ''EISDIR: illegal operation on a directory, unlink ''
                    @ quoted (temp_file sticky_env None))"
    by blast
  then have r2: "fst (printRaw sticky_env [0x25, 0x50] None no_options sticky_state)
     = Inl (Error (''EPERM: operation not permitted, unlink ''
                   @ quoted ''/tmp/Document-1700000000000.pdf''))"
    unfolding sticky_printRaw by simp
  have u: "unlink_file sticky_env (temp_file sticky_env None)
     = Some (''EPERM: operation not permitted, unlink '' @ quoted ''/tmp/Document-1700000000000.pdf'')"
    unfolding demo_temp_file by (simp add: sticky_env_def)
  show ?thesis
    by (intro conjI) (rule n demo_temp_file h r1 r0 k r2 u)+
qed

text \<open>
  Claim C10 as stated does not hold for every document name, nor for every state of
  \<^verbatim>\<open>/tmp\<close>. \<^verbatim>\<open>path.join\<close> normalises the path, so for the name \<^verbatim>\<open>a/../b\<close> the file written,
  printed and deleted is \<^verbatim>\<open>/tmp/b-<timestamp>.pdf\<close>, not \<^verbatim>\<open>/tmp/a/../b-<timestamp>.pdf\<close>. And
  when the path is taken by a file that the system lets \<^verbatim>\<open>printRaw\<close> write but not unlink,
  \<^verbatim>\<open>printRaw\<close> throws the error of \<^verbatim>\<open>unlinkSync\<close> and the file is still there, with the data.
\<close>

theorem temp_file_path_is_normalised:
  "temp_file demo_env (Some ''a/../b'') = ''/tmp/b-1700000000000.pdf''
 \<and> temp_file demo_env (Some ''a/../b'') \<noteq> ''/tmp/a/../b-1700000000000.pdf''
 \<and> printRaw demo_env [0x25, 0x50] (Some ''a/../b'') no_options demo_state
     = (Inr (),
        demo_state\<lparr>initialized := True,
                    cmds := [''lpstat -p -d 2>/dev/null || lpstat -p'', ''lpstat -d 2>/dev/null'',
                             ''lp -d HP /tmp/b-1700000000000.pdf'']\<rparr>)
 \<and> temp_file sticky_env None = ''/tmp/Document-1700000000000.pdf''
 \<and> fst (printRaw sticky_env [0x25, 0x50] None no_options sticky_state)
     = Inl (Error (''EPERM: operation not permitted, unlink ''
                   @ quoted ''/tmp/Document-1700000000000.pdf''))
 \<and> fs (snd (printRaw sticky_env [0x25, 0x50] None no_options sticky_state))
       ''/tmp/Document-1700000000000.pdf'' = Some (File [0x25, 0x50])"
proof -
  let ?p = "''/tmp/b-1700000000000.pdf''"
  have d: "fs demo_state (temp_file demo_env (Some ''a/../b'')) \<noteq> Some Dir"
    "unlink_file demo_env (temp_file demo_env (Some ''a/../b'')) = None"
    unfolding demo_temp_file by (simp_all add: demo_state_def demo_fs_def demo_env_def)
  have g: "demo_fs(?p := None) = demo_fs"
    by (auto simp: demo_fs_def)
  have "printRaw demo_env [0x25, 0x50] (Some ''a/../b'') no_options demo_state
     = (Inr (),
        demo_state\<lparr>initialized := True,
                    cmds := [''lpstat -p -d 2>/dev/null || lpstat -p'', ''lpstat -d 2>/dev/null'',
                             ''lp -d HP /tmp/b-1700000000000.pdf'']\<rparr>)"
    unfolding printRaw_outcome [OF d] demo_temp_file
    using demo_print_temp [of "\<lambda>p. None" ?p demo_fs "[0x25, 0x50]"]
    by (simp add: g demo_state_def demo_env_def)
  then show ?thesis
    unfolding sticky_printRaw by (simp add: demo_temp_file)
qed

end
